theory Spec2Isabelle
  imports Complex_Main "HOL-Library.Word"
begin

section \<open>Geometric primitives\<close>

text \<open>
  The embedding follows \<^verbatim>\<open>GridElements.cpp\<close>. A node is three coordinates of type
  \<^verbatim>\<open>double\<close>. In \<^verbatim>\<open>Face::Contains\<close>, which the source writes out operation by
  operation and whose result turns on the sign of a rounded quotient, a coordinate is an
  IEEE double and every operation rounds. Everywhere else a \<^verbatim>\<open>double\<close> is idealised as
  a real number: the arithmetic of nodes is in the absent header and in the k-d tree
  library, the conversions from longitude and latitude use the trigonometric functions,
  and the sum of the face areas is stated in exact arithmetic. The type of nodes
  therefore takes the type of its coordinates as a parameter.
  Node indices (\<^verbatim>\<open>NodeIndex\<close>, a C++ \<^verbatim>\<open>int\<close>) are integers, container sizes and loop
  counters are natural numbers.
\<close>

datatype 'a Coordinates = Node (node_x: 'a) (node_y: 'a) (node_z: 'a)

type_synonym Node = "real Coordinates"

text \<open>
  Modelled from the spec: the header \<^verbatim>\<open>GridElements.h\<close> with the arithmetic of
  \<^verbatim>\<open>Node\<close> is not among the sources; the spec lists difference, magnitude, dot and cross
  product of the three coordinates.
\<close>

definition node_minus :: "Node \<Rightarrow> Node \<Rightarrow> Node" where
  "node_minus a b = Node (node_x a - node_x b) (node_y a - node_y b) (node_z a - node_z b)"

definition Magnitude :: "Node \<Rightarrow> real" where
  "Magnitude a = sqrt (node_x a * node_x a + node_y a * node_y a + node_z a * node_z a)"

definition DotProduct :: "Node \<Rightarrow> Node \<Rightarrow> real" where
  "DotProduct a b = node_x a * node_x b + node_y a * node_y b + node_z a * node_z b"

definition CrossProduct :: "Node \<Rightarrow> Node \<Rightarrow> Node" where
  "CrossProduct a b =
     Node (node_y a * node_z b - node_z a * node_y b)
          (node_z a * node_x b - node_x a * node_z b)
          (node_x a * node_y b - node_y a * node_x b)"

text \<open>
  Modelled from the spec: \<^verbatim>\<open>Defines.h\<close> is not among the sources; the spec gives the
  reference tolerance as 1e-8.
\<close>

definition ReferenceTolerance :: real where
  "ReferenceTolerance = 1 / 10 ^ 8"

text \<open>
  Modelled from the spec: the sentinel node index of \<^verbatim>\<open>GridElements.h\<close> (``not found'').
  As a \<^verbatim>\<open>NodeIndex\<close> it is \<open>-1\<close>; converted to \<^verbatim>\<open>size_t\<close> it is the largest 64-bit
  value.
\<close>

definition InvalidNode :: int where
  "InvalidNode = - 1"

text \<open>
  An edge is a directed pair of node indices (\<^verbatim>\<open>edge[0]\<close>, \<^verbatim>\<open>edge[1]\<close>) with the code of
  its arc type; a face is its vector of edges.
\<close>

datatype Edge = Edge (edge0: int) (edge1: int) (edge_type: int)

datatype Face = Face (edges: "Edge list")

text \<open>
  Modelled from the spec: \<^verbatim>\<open>Face::operator[]\<close> is declared in the absent header; a face
  is ``indexable by position to obtain the origin node index''.
\<close>

definition face_at :: "Face \<Rightarrow> nat \<Rightarrow> int" where
  "face_at f k = edge0 (edges f ! k)"

text \<open>
  Exceptions carry the format string of the \<^verbatim>\<open>_EXCEPTION\<close> macro and its arguments.
  An access outside a vector, or through a null pointer, is undefined behaviour in
  C++; the model makes it a result of its own, naming the object accessed.
\<close>

datatype arg = S string | I int | D real

datatype error = Exception string "arg list" | Undefined string

record Mesh =
  nodes :: "Node list"
  faces :: "Face list"
  edgemap :: "(int \<times> int) \<rightharpoonup> nat list"
  revnodearray :: "nat set list"
  vecFaceArea :: "real list"
  vecSourceFaceIx :: "int list"
  vecTargetFaceIx :: "int list"
  vecMask :: "int list"
  strFileName :: string

text \<open>\<^verbatim>\<open>nodes[ix]\<close> for an \<^verbatim>\<open>int\<close> index.\<close>

definition node_at :: "'a list \<Rightarrow> int \<Rightarrow> error + 'a" where
  "node_at nodevec ix =
     (if 0 \<le> ix \<and> ix < int (length nodevec) then Inr (nodevec ! nat ix)
      else Inl (Undefined ''nodes''))"

section \<open>Face areas: the blocked summation of \<^verbatim>\<open>Mesh::CalculateFaceAreas\<close>\<close>

definition Jump :: nat where
  "Jump = 10"

text \<open>
  The innermost loop: \<^verbatim>\<open>for (j = 1; j < Jump; j++)\<close>, leaving at the end of the array,
  adding \<^verbatim>\<open>v[ixRef + j]\<close> to \<^verbatim>\<open>v[i]\<close> in place.
\<close>

function block_add :: "real list \<Rightarrow> nat \<Rightarrow> nat \<Rightarrow> nat \<Rightarrow> real list" where
  "block_add v i ixRef j =
     (if j < Jump then
        (if ixRef + j \<ge> length v then v
         else block_add (v[i := v ! i + v ! (ixRef + j)]) i ixRef (j + 1))
      else v)"
  by pat_completeness auto
termination
  by (relation "measure (\<lambda>(v, i, ixRef, j). Jump - j)") auto

declare block_add.simps [simp del]

lemma length_block_add: "length (block_add v i ixRef j) = length v"
  by (induction v i ixRef j rule: block_add.induct) (subst block_add.simps, simp)

text \<open>
  The loop over the blocks, \<^verbatim>\<open>for (i = 0; i <= (size - 1) / Jump; i++)\<close>: entry \<open>i\<close> is
  overwritten with entry \<open>Jump * i\<close> and the rest of its block is added to it.
\<close>

function collapse :: "real list \<Rightarrow> nat \<Rightarrow> real list" where
  "collapse v i =
     (if i \<le> (length v - 1) div Jump then
        collapse (block_add (v[i := v ! (Jump * i)]) i (Jump * i) 1) (i + 1)
      else v)"
  by pat_completeness auto
termination
  by (relation "measure (\<lambda>(v, i). Suc ((length v - 1) div Jump) - i)")
     (auto simp: length_block_add)

declare collapse.simps [simp del]

text \<open>
  The outer \<^verbatim>\<open>for (;;)\<close>: it leaves when one entry remains, and otherwise collapses the
  array and shrinks it to \<open>(size - 1) / Jump + 1\<close> entries. The loop has no bound of its
  own, so that it returns is part of what is proved about it.
\<close>

partial_function (option) accumulate :: "real list \<Rightarrow> real option" where
  "accumulate v =
     (if length v = 1 then Some (v ! 0)
      else accumulate (take ((length v - 1) div Jump + 1) (collapse v 0)))"

text \<open>
  \<^verbatim>\<open>Mesh::CalculateFaceAreas\<close>. The area of one face (\<^verbatim>\<open>CalculateFaceArea\<close>, a Gauss
  quadrature) is a parameter. The result is the mesh with its area array and the
  total. The warning about small faces only prints.
\<close>

definition CalculateFaceAreas ::
  "(Face \<Rightarrow> Node list \<Rightarrow> real) \<Rightarrow> Mesh \<Rightarrow> (Mesh \<times> real) option" where
  "CalculateFaceAreas CalculateFaceArea m =
     (if length (faces m) = 0 then Some (m\<lparr>vecFaceArea := []\<rparr>, 0)
      else
        let areas = map (\<lambda>f. CalculateFaceArea f (nodes m)) (faces m)
        in map_option (\<lambda>t. (m\<lparr>vecFaceArea := areas\<rparr>, t)) (accumulate areas))"

text \<open>The naive summation the claim compares with: one accumulator, left to right.\<close>

definition naive_sum :: "real list \<Rightarrow> real" where
  "naive_sum v = foldl (+) 0 v"

section \<open>IEEE doubles\<close>

text \<open>
  A \<^verbatim>\<open>double\<close> is a binary64 value of IEEE 754: a finite number, an infinity or no
  number (NaN). \<open>Finite s m e\<close> stands for \<open>m * 2 ^ e\<close>, negated when the sign \<open>s\<close> is
  set; the two zeros are \<open>Finite False 0 e\<close> and \<open>Finite True 0 e\<close>. The values of the
  format have \<open>m < 2 ^ 53\<close> and \<open>- 1074 \<le> e \<le> 971\<close>, and the rounding below returns
  them with \<open>2 ^ 52 \<le> m\<close> or \<open>e = - 1074\<close>.

  The four operations of arithmetic return the exact result rounded to the nearest value
  of the format, a tie to the value of even \<open>m\<close>, and an infinity when the rounded value
  reaches \<open>2 ^ 1024\<close>: the default rounding of IEEE 754, applied to every single
  operation (no fused multiply-add, no wider intermediate results).
\<close>

datatype double = Finite bool int int | Infinity bool | NaN

text \<open>The number of binary digits of a positive integer.\<close>

function bit_length :: "int \<Rightarrow> int" where
  "bit_length n = (if n \<le> 0 then 0 else 1 + bit_length (n div 2))"
  by pat_completeness auto
termination
  by (relation "measure nat") auto

declare bit_length.simps [simp del]

text \<open>
  Rounding of the exact value \<open>m * 2 ^ e\<close> (\<open>m\<close> of any size, sign \<open>s\<close>). The result has
  the exponent \<open>e'\<close> that leaves 53 digits, or the least exponent of the format when that
  is larger (a subnormal result). When \<open>e' \<le> e\<close> the value is in the format as it is.
  Otherwise the digits below \<open>2 ^ e'\<close> are cut off, and the remainder \<open>r\<close> decides:
  above the half, or at the half with an odd quotient, the quotient goes up by one.
\<close>

definition round_to_double :: "bool \<Rightarrow> int \<Rightarrow> int \<Rightarrow> double" where
  "round_to_double s m e =
     (if m = 0 then Finite s 0 (- 1074)
      else
        let e' = max (e + bit_length m - 53) (- 1074) in
        if e' \<le> e then
          (if 971 < e' then Infinity s else Finite s (m * 2 ^ nat (e - e')) e')
        else
          let sh = nat (e' - e);
              q = m div 2 ^ sh;
              r = m mod 2 ^ sh;
              half = 2 ^ (sh - 1);
              n = (if half < r \<or> (r = half \<and> odd q) then q + 1 else q);
              n' = (if n = 2 ^ 53 then 2 ^ 52 else n);
              e'' = (if n = 2 ^ 53 then e' + 1 else e')
          in if 971 < e'' then Infinity s else Finite s n' e'')"

text \<open>
  The double nearest to an integer: the literals \<^verbatim>\<open>0.0\<close> and \<^verbatim>\<open>1.0\<close> of the source are
  \<open>double_of_int 0\<close> and \<open>double_of_int 1\<close>. The double of a decimal fraction is the
  quotient of two of these: \<open>0.6\<close> is \<open>double_div (double_of_int 6) (double_of_int 10)\<close>.
\<close>

definition double_of_int :: "int \<Rightarrow> double" where
  "double_of_int i = round_to_double (i < 0) \<bar>i\<bar> 0"

text \<open>
  Two finite values are brought to a common exponent, that of the smaller one, where they
  are integers; a zero takes the exponent of the other value.
\<close>

definition common_exponent :: "int \<Rightarrow> int \<Rightarrow> int \<Rightarrow> int \<Rightarrow> int" where
  "common_exponent m1 e1 m2 e2 = (if m1 = 0 then e2 else if m2 = 0 then e1 else min e1 e2)"

definition scaled :: "bool \<Rightarrow> int \<Rightarrow> int \<Rightarrow> int \<Rightarrow> int" where
  "scaled s m e e0 = (if s then - 1 else 1) * m * 2 ^ nat (e - e0)"

fun double_neg :: "double \<Rightarrow> double" where
  "double_neg (Finite s m e) = Finite (\<not> s) m e"
| "double_neg (Infinity s) = Infinity (\<not> s)"
| "double_neg NaN = NaN"

text \<open>
  \<^verbatim>\<open>a + b\<close>. An exact sum of zero is the positive zero, unless both terms are the
  negative zero.
\<close>

fun double_add :: "double \<Rightarrow> double \<Rightarrow> double" where
  "double_add (Finite s1 m1 e1) (Finite s2 m2 e2) =
     (let e0 = common_exponent m1 e1 m2 e2;
          c = scaled s1 m1 e1 e0 + scaled s2 m2 e2 e0
      in if c = 0 then Finite (s1 \<and> s2) 0 (- 1074)
         else round_to_double (c < 0) \<bar>c\<bar> e0)"
| "double_add (Finite s1 m1 e1) (Infinity s2) = Infinity s2"
| "double_add (Infinity s1) (Finite s2 m2 e2) = Infinity s1"
| "double_add (Infinity s1) (Infinity s2) = (if s1 = s2 then Infinity s1 else NaN)"
| "double_add NaN b = NaN"
| "double_add a NaN = NaN"

text \<open>\<^verbatim>\<open>a - b\<close>.\<close>

definition double_sub :: "double \<Rightarrow> double \<Rightarrow> double" where
  "double_sub a b = double_add a (double_neg b)"

text \<open>\<^verbatim>\<open>a * b\<close>.\<close>

fun double_mul :: "double \<Rightarrow> double \<Rightarrow> double" where
  "double_mul (Finite s1 m1 e1) (Finite s2 m2 e2) =
     round_to_double (s1 \<noteq> s2) (m1 * m2) (e1 + e2)"
| "double_mul (Finite s1 m1 e1) (Infinity s2) = (if m1 = 0 then NaN else Infinity (s1 \<noteq> s2))"
| "double_mul (Infinity s1) (Finite s2 m2 e2) = (if m2 = 0 then NaN else Infinity (s1 \<noteq> s2))"
| "double_mul (Infinity s1) (Infinity s2) = Infinity (s1 \<noteq> s2)"
| "double_mul NaN b = NaN"
| "double_mul a NaN = NaN"

text \<open>
  \<^verbatim>\<open>a / b\<close>. A division by a zero gives an infinity of the sign of both, or no number
  for \<open>0 / 0\<close>. Otherwise the quotient \<open>q\<close> of the integers is taken with more than 55
  digits, and one more digit records whether the division left a remainder, which is all
  that the rounding needs of the digits that follow.
\<close>

fun double_div :: "double \<Rightarrow> double \<Rightarrow> double" where
  "double_div (Finite s1 m1 e1) (Finite s2 m2 e2) =
     (if m2 = 0 then (if m1 = 0 then NaN else Infinity (s1 \<noteq> s2))
      else
        let k = nat (bit_length m2) + 55;
            q = (m1 * 2 ^ k) div m2;
            r = (m1 * 2 ^ k) mod m2
        in round_to_double (s1 \<noteq> s2) (2 * q + (if r = 0 then 0 else 1)) (e1 - e2 - int k - 1))"
| "double_div (Finite s1 m1 e1) (Infinity s2) = Finite (s1 \<noteq> s2) 0 (- 1074)"
| "double_div (Infinity s1) (Finite s2 m2 e2) = Infinity (s1 \<noteq> s2)"
| "double_div (Infinity s1) (Infinity s2) = NaN"
| "double_div NaN b = NaN"
| "double_div a NaN = NaN"

text \<open>
  \<^verbatim>\<open>a < b\<close> and \<^verbatim>\<open>a == b\<close>. The two zeros are equal; NaN is neither less than, nor equal
  to, nor greater than anything.
\<close>

fun double_less :: "double \<Rightarrow> double \<Rightarrow> bool" where
  "double_less (Finite s1 m1 e1) (Finite s2 m2 e2) =
     (scaled s1 m1 e1 (common_exponent m1 e1 m2 e2)
        < scaled s2 m2 e2 (common_exponent m1 e1 m2 e2))"
| "double_less (Finite s1 m1 e1) (Infinity s2) = (\<not> s2)"
| "double_less (Infinity s1) (Finite s2 m2 e2) = s1"
| "double_less (Infinity s1) (Infinity s2) = (s1 \<and> \<not> s2)"
| "double_less NaN b = False"
| "double_less a NaN = False"

fun double_eq :: "double \<Rightarrow> double \<Rightarrow> bool" where
  "double_eq (Finite s1 m1 e1) (Finite s2 m2 e2) =
     (scaled s1 m1 e1 (common_exponent m1 e1 m2 e2)
        = scaled s2 m2 e2 (common_exponent m1 e1 m2 e2))"
| "double_eq (Infinity s1) (Infinity s2) = (s1 = s2)"
| "double_eq a b = False"

text \<open>A node with integer coordinates, as doubles.\<close>

definition double_node :: "int \<Rightarrow> int \<Rightarrow> int \<Rightarrow> double Coordinates" where
  "double_node x y z = Node (double_of_int x) (double_of_int y) (double_of_int z)"

section \<open>Point containment: \<^verbatim>\<open>Face::Contains\<close>\<close>

text \<open>
  One pass through the body of the loop over the edges: the new value of \<^verbatim>\<open>nParity\<close>
  (each \<^verbatim>\<open>continue\<close> leaves it as it is). \<^verbatim>\<open>n1.z > n0.z\<close> is \<^verbatim>\<open>n0.z < n1.z\<close>.
\<close>

definition Contains_edge ::
  "double Coordinates \<Rightarrow> double Coordinates \<Rightarrow> double Coordinates \<Rightarrow> int \<Rightarrow> int" where
  "Contains_edge n0 n1 n2 nParity =
     (if double_less (node_z n0) (node_z n1) \<and> double_less (node_z n0) (node_z n2) then nParity
      else if double_less (node_z n1) (node_z n0) \<and> double_less (node_z n2) (node_z n0)
        then nParity
      else if double_eq (node_z n1) (node_z n2) then nParity
      else
        let nx =
              (if double_less (node_z n1) (node_z n2) then
                 let dA = double_div (double_sub (node_z n0) (node_z n1))
                                     (double_sub (node_z n2) (node_z n1))
                 in Node (double_add (double_mul (double_sub (double_of_int 1) dA) (node_x n1))
                                     (double_mul dA (node_x n2)))
                         (double_add (double_mul (double_sub (double_of_int 1) dA) (node_y n1))
                                     (double_mul dA (node_y n2)))
                         (node_z n0)
               else
                 let dA = double_div (double_sub (node_z n0) (node_z n2))
                                     (double_sub (node_z n1) (node_z n2))
                 in Node (double_add (double_mul (double_sub (double_of_int 1) dA) (node_x n2))
                                     (double_mul dA (node_x n1)))
                         (double_add (double_mul (double_sub (double_of_int 1) dA) (node_y n2))
                                     (double_mul dA (node_y n1)))
                         (node_z n0));
            dc = double_sub (double_mul (node_x n0) (node_y nx))
                            (double_mul (node_y n0) (node_x nx));
            dd = double_add (double_add (double_mul (node_x n0) (node_x nx))
                                        (double_mul (node_y n0) (node_y nx)))
                            (double_mul (node_z n0) (node_z nx));
            da = double_div dc dd
        in if double_less da (double_of_int 0) then nParity
           else if double_less (node_z n1) (node_z n2) then nParity + 1
           else nParity - 1)"

text \<open>
  The loop \<^verbatim>\<open>for (i1 = 0; i1 < edges.size(); i1++)\<close>; \<open>n1\<close> and \<open>n2\<close> are the nodes at
  the origins of edge \<open>i1\<close> and of the edge after it, cyclically.
\<close>

function Contains_loop ::
  "Face \<Rightarrow> double Coordinates \<Rightarrow> double Coordinates list \<Rightarrow> nat \<Rightarrow> int \<Rightarrow> error + int" where
  "Contains_loop f n0 nodevec i1 nParity =
     (if i1 < length (edges f) then
        let i2 = (i1 + 1) mod length (edges f) in
        case node_at nodevec (face_at f i1) of
          Inl e \<Rightarrow> Inl e
        | Inr n1 \<Rightarrow>
            (case node_at nodevec (face_at f i2) of
               Inl e \<Rightarrow> Inl e
             | Inr n2 \<Rightarrow>
                 Contains_loop f n0 nodevec (i1 + 1) (Contains_edge n0 n1 n2 nParity))
      else Inr nParity)"
  by pat_completeness auto
termination
  by (relation "measure (\<lambda>(f, n0, nodevec, i1, nParity). length (edges f) - i1)") auto

declare Contains_loop.simps [simp del]

definition Contains ::
  "Face \<Rightarrow> double Coordinates \<Rightarrow> double Coordinates list \<Rightarrow> error + bool" where
  "Contains f n0 nodevec =
     (case Contains_loop f n0 nodevec 0 0 of
        Inl e \<Rightarrow> Inl e
      | Inr nParity \<Rightarrow> Inr (nParity > 0))"

text \<open>
  The claim's description of the same test, in its words. The linear interpolation at
  height \<open>z\<close> between two nodes, starting from the first; the intersection of an edge with
  the plane of the query's \<open>z\<close>, interpolated from the end of smaller \<open>z\<close>; the surrogate
  of the signed angle; the contribution of one edge; the accumulated parity of a face.
\<close>

definition interpolate ::
  "double \<Rightarrow> double Coordinates \<Rightarrow> double Coordinates \<Rightarrow> double Coordinates" where
  "interpolate z lo hi =
     (let dA = double_div (double_sub z (node_z lo)) (double_sub (node_z hi) (node_z lo))
      in Node (double_add (double_mul (double_sub (double_of_int 1) dA) (node_x lo))
                          (double_mul dA (node_x hi)))
              (double_add (double_mul (double_sub (double_of_int 1) dA) (node_y lo))
                          (double_mul dA (node_y hi)))
              z)"

definition plane_intersection ::
  "double Coordinates \<Rightarrow> double Coordinates \<Rightarrow> double Coordinates \<Rightarrow> double Coordinates" where
  "plane_intersection n0 n1 n2 =
     (if double_less (node_z n1) (node_z n2) then interpolate (node_z n0) n1 n2
      else interpolate (node_z n0) n2 n1)"

definition surrogate :: "double Coordinates \<Rightarrow> double Coordinates \<Rightarrow> double" where
  "surrogate n0 nx =
     double_div
       (double_sub (double_mul (node_x n0) (node_y nx)) (double_mul (node_y n0) (node_x nx)))
       (double_add (double_add (double_mul (node_x n0) (node_x nx))
                               (double_mul (node_y n0) (node_y nx)))
                   (double_mul (node_z n0) (node_z nx)))"

definition parity_contribution ::
  "double Coordinates \<Rightarrow> double Coordinates \<Rightarrow> double Coordinates \<Rightarrow> int" where
  "parity_contribution n0 n1 n2 =
     (if (double_less (node_z n0) (node_z n1) \<and> double_less (node_z n0) (node_z n2))
         \<or> (double_less (node_z n1) (node_z n0) \<and> double_less (node_z n2) (node_z n0))
         \<or> double_eq (node_z n1) (node_z n2) then 0
      else if double_less (surrogate n0 (plane_intersection n0 n1 n2)) (double_of_int 0) then 0
      else if double_less (node_z n1) (node_z n2) then 1
      else if double_less (node_z n2) (node_z n1) then - 1
      else 0)"

definition edge_ends ::
  "Face \<Rightarrow> double Coordinates list \<Rightarrow> nat \<Rightarrow> double Coordinates \<times> double Coordinates" where
  "edge_ends f nodevec i =
     (nodevec ! nat (face_at f i), nodevec ! nat (face_at f ((i + 1) mod length (edges f))))"

definition signed_parity :: "Face \<Rightarrow> double Coordinates \<Rightarrow> double Coordinates list \<Rightarrow> int" where
  "signed_parity f n0 nodevec =
     (\<Sum>i<length (edges f).
        parity_contribution n0 (fst (edge_ends f nodevec i)) (snd (edge_ends f nodevec i)))"

text \<open>Every origin of the face is an index into the node vector.\<close>

definition origins_valid :: "Face \<Rightarrow> 'a list \<Rightarrow> bool" where
  "origins_valid f nodevec =
     list_all (\<lambda>e. 0 \<le> edge0 e \<and> edge0 e < int (length nodevec)) (edges f)"

text \<open>
  The \<open>z\<close> of every node of the face is a number or an infinity. A NaN is not less than,
  equal to or greater than anything, so that for an edge with such an end none of the
  three cases of the claim (\<open>n1.z = n2.z\<close>, \<open>n1.z < n2.z\<close>, \<open>n1.z > n2.z\<close>) applies.
\<close>

definition heights_ordered :: "Face \<Rightarrow> double Coordinates list \<Rightarrow> bool" where
  "heights_ordered f nodevec =
     list_all (\<lambda>e. node_z (nodevec ! nat (edge0 e)) \<noteq> NaN) (edges f)"

section \<open>Validation: \<^verbatim>\<open>Mesh::Validate\<close>\<close>

text \<open>
  The first inner loop (``check for zero edges''): \<open>j\<close> moves past edges whose two ends
  are the same node and stops at the first other edge or at \<^verbatim>\<open>nEdges\<close>. The loop is
  entered with \<open>j < nEdges\<close> only; the bound in the test keeps the function total.
\<close>

function skip_zero_edges :: "Edge list \<Rightarrow> nat \<Rightarrow> nat" where
  "skip_zero_edges es j =
     (if j < length es \<and> edge0 (es ! j) = edge1 (es ! j) then
        (if j + 1 = length es then j + 1 else skip_zero_edges es (j + 1))
      else j)"
  by pat_completeness auto
termination
  by (relation "measure (\<lambda>(es, j). length es - j)") auto

declare skip_zero_edges.simps [simp del]

lemma skip_zero_edges_ge: "j \<le> skip_zero_edges es j"
proof (induction es j rule: skip_zero_edges.induct)
  case (1 es j)
  show ?case
  proof (cases "j < length es \<and> edge0 (es ! j) = edge1 (es ! j) \<and> j + 1 \<noteq> length es")
    case True
    then have "j + 1 \<le> skip_zero_edges es (j + 1)" by (intro "1.IH") auto
    then show ?thesis using True by (subst skip_zero_edges.simps) simp
  next
    case False
    then show ?thesis by (subst skip_zero_edges.simps) auto
  qed
qed

text \<open>
  The second inner loop (``find the next non-zero edge''), started at
  \<open>(j + 1) % nEdges\<close>: it walks cyclically and throws when it comes back to its start.
\<close>

function next_nonzero_edge :: "Edge list \<Rightarrow> nat \<Rightarrow> nat \<Rightarrow> error + nat" where
  "next_nonzero_edge es j jNext =
     (if jNext < length es \<and> edge0 (es ! jNext) = edge1 (es ! jNext) then
        (if (if jNext + 1 = length es then 0 else jNext + 1) = (j + 1) mod length es then
           Inl (Exception ''Mesh validation failed: No edge information on Face'' [])
         else
           next_nonzero_edge es j (if jNext + 1 = length es then 0 else jNext + 1))
      else Inr jNext)"
  by pat_completeness auto
termination
proof (relation "measure (\<lambda>(es, j, jNext).
        if jNext < (j + 1) mod length es then (j + 1) mod length es - jNext
        else (j + 1) mod length es + length es - jNext)", goal_cases)
  case 1
  show ?case by simp
next
  case (2 es j jNext)
  then have "0 < length es" by auto
  then have "(j + 1) mod length es < length es" by (rule mod_less_divisor)
  then show ?case using 2 by (auto split: if_splits)
qed

declare next_nonzero_edge.simps [simp del]

text \<open>
  The loop over the edges of one face. The index \<^verbatim>\<open>jNext\<close> that the second inner loop
  computes is not used afterwards: \<^verbatim>\<open>edge1\<close> is \<^verbatim>\<open>face.edges[(j + 1) % nEdges]\<close>.
  The printed diagnosis before the last exception is output only.
\<close>

function Validate_edges :: "Node list \<Rightarrow> Face \<Rightarrow> nat \<Rightarrow> error + unit" where
  "Validate_edges nodevec face j =
     (if j < length (edges face) then
        let j1 = skip_zero_edges (edges face) j in
        if j1 = length (edges face) then Inr ()
        else
          case next_nonzero_edge (edges face) j1 ((j1 + 1) mod length (edges face)) of
            Inl e \<Rightarrow> Inl e
          | Inr jNext \<Rightarrow>
              let e0 = edges face ! j1;
                  e1 = edges face ! ((j1 + 1) mod length (edges face))
              in
              if edge1 e0 \<noteq> edge0 e1 then
                Inl (Exception ''Mesh validation failed: Edge cyclicity error'' [])
              else
                (case node_at nodevec (edge0 e0) of
                   Inl e \<Rightarrow> Inl e
                 | Inr node0 \<Rightarrow>
                     (case node_at nodevec (edge1 e0) of
                        Inl e \<Rightarrow> Inl e
                      | Inr node1 \<Rightarrow>
                          (case node_at nodevec (edge1 e1) of
                             Inl e \<Rightarrow> Inl e
                           | Inr node2 \<Rightarrow>
                               let nodeD1 = node_minus node0 node1;
                                   nodeD2 = node_minus node2 node1;
                                   nodeCross = CrossProduct nodeD1 nodeD2;
                                   dDot = DotProduct node1 nodeCross
                               in
                               if dDot > 0 then
                                 Inl (Exception
                                   ''Mesh validation failed: Clockwise or concave face detected'' [])
                               else Validate_edges nodevec face (j1 + 1))))
      else Inr ())"
  by pat_completeness auto
termination
  by (relation "measure (\<lambda>(nodevec, face, j). length (edges face) - j)")
     (auto simp: le_imp_less_Suc[OF skip_zero_edges_ge] intro: diff_less_mono2)

declare Validate_edges.simps [simp del]

text \<open>The loop over the nodes: \<^verbatim>\<open>fabs(dMag - 1.0) > ReferenceTolerance\<close> throws.\<close>

fun Validate_nodes :: "Node list \<Rightarrow> nat \<Rightarrow> error + unit" where
  "Validate_nodes [] i = Inr ()"
| "Validate_nodes (node # rest) i =
     (let dMag = Magnitude node in
      if \<bar>dMag - 1\<bar> > ReferenceTolerance then
        Inl (Exception
          ''Mesh validation failed: Node[%i] of non-unit magnitude detected (%1.10e, %1.10e, %1.10e) = %1.10e''
          [I (int i), D (node_x node), D (node_y node), D (node_z node), D dMag])
      else Validate_nodes rest (i + 1))"

fun Validate_faces :: "Node list \<Rightarrow> Face list \<Rightarrow> error + unit" where
  "Validate_faces nodevec [] = Inr ()"
| "Validate_faces nodevec (face # rest) =
     (case Validate_edges nodevec face 0 of
        Inl e \<Rightarrow> Inl e
      | Inr u \<Rightarrow> Validate_faces nodevec rest)"

definition Validate :: "Mesh \<Rightarrow> error + unit" where
  "Validate m =
     (case Validate_nodes (nodes m) 0 of
        Inl e \<Rightarrow> Inl e
      | Inr u \<Rightarrow> Validate_faces (nodes m) (faces m))"

text \<open>The empty-constructed mesh.\<close>

definition empty_mesh :: Mesh where
  "empty_mesh =
     \<lparr>nodes = [], faces = [], edgemap = Map.empty, revnodearray = [], vecFaceArea = [],
      vecSourceFaceIx = [], vecTargetFaceIx = [], vecMask = [], strFileName = []\<rparr>"


section \<open>The spatial index and \<^verbatim>\<open>Mesh::RemoveCoincidentNodes\<close>\<close>

text \<open>
  Modelled from the spec: the k-d tree (\<^verbatim>\<open>kdtree.h\<close>, \<^verbatim>\<open>kdtree.cpp\<close>) is not among the
  sources. The spec uses it as an index over points that answers ``nearest neighbour''
  and ``all points within a radius''. The model keeps the inserted points with their
  payloads in insertion order. \<^verbatim>\<open>kd_nearest3\<close> returns an inserted point of least
  distance (the earliest inserted of several), and nothing on an empty index;
  \<^verbatim>\<open>kd_nearest_range3\<close> returns every inserted point whose distance is at most the
  radius. A failed allocation inside the library is not modelled.
\<close>

type_synonym 'a kdtree = "(Node \<times> 'a) list"

definition dist_sq :: "Node \<Rightarrow> Node \<Rightarrow> real" where
  "dist_sq a b =
     (node_x a - node_x b) * (node_x a - node_x b)
     + (node_y a - node_y b) * (node_y a - node_y b)
     + (node_z a - node_z b) * (node_z a - node_z b)"

definition kd_insert3 :: "'a kdtree \<Rightarrow> Node \<Rightarrow> 'a \<Rightarrow> 'a kdtree" where
  "kd_insert3 kdt p d = kdt @ [(p, d)]"

fun kd_nearest3 :: "'a kdtree \<Rightarrow> Node \<Rightarrow> (Node \<times> 'a) option" where
  "kd_nearest3 [] p = None"
| "kd_nearest3 (e # kdt) p =
     (case kd_nearest3 kdt p of
        None \<Rightarrow> Some e
      | Some b \<Rightarrow> if dist_sq (fst e) p \<le> dist_sq (fst b) p then Some e else Some b)"

definition kd_nearest_range3 :: "'a kdtree \<Rightarrow> Node \<Rightarrow> real \<Rightarrow> (Node \<times> 'a) list" where
  "kd_nearest_range3 kdt p radius = filter (\<lambda>e. dist_sq (fst e) p \<le> radius * radius) kdt"

text \<open>
  The loop \<^verbatim>\<open>for (k = 1; k < nodes.size(); k++)\<close> of \<^verbatim>\<open>RemoveCoincidentNodes\<close> over
  the nodes after the first, with the index, the table of new indices and the list of
  unique nodes as its state.
\<close>

fun dedup_pass ::
  "Node list \<Rightarrow> nat \<Rightarrow> nat kdtree \<times> int list \<times> int list \<Rightarrow>
   error + (nat kdtree \<times> int list \<times> int list)" where
  "dedup_pass [] k st = Inr st"
| "dedup_pass (node # rest) k (kdt, vecNewNodeIndex, vecUniques) =
     (case kd_nearest3 kdt node of
        None \<Rightarrow> Inl (Exception ''kd_nearest3() failed'' [])
      | Some (nodeNearest, ixNodeNearestNewIx) \<Rightarrow>
          let nodeDelta = node_minus node nodeNearest in
          if Magnitude nodeDelta < ReferenceTolerance then
            dedup_pass rest (k + 1)
              (kdt, vecNewNodeIndex @ [int ixNodeNearestNewIx], vecUniques)
          else
            dedup_pass rest (k + 1)
              (kd_insert3 kdt node (length vecUniques),
               vecNewNodeIndex @ [int (length vecUniques)],
               vecUniques @ [int k]))"

text \<open>\<^verbatim>\<open>vecNewNodeIndex[edge[0]]\<close>: the index is an \<^verbatim>\<open>int\<close> taken from a face.\<close>

definition new_index :: "int list \<Rightarrow> int \<Rightarrow> error + int" where
  "new_index vecNewNodeIndex ix =
     (if 0 \<le> ix \<and> ix < int (length vecNewNodeIndex) then Inr (vecNewNodeIndex ! nat ix)
      else Inl (Undefined ''vecNewNodeIndex''))"

fun remap_edges :: "int list \<Rightarrow> Edge list \<Rightarrow> error + Edge list" where
  "remap_edges vecNewNodeIndex [] = Inr []"
| "remap_edges vecNewNodeIndex (edge # rest) =
     (case new_index vecNewNodeIndex (edge0 edge) of
        Inl e \<Rightarrow> Inl e
      | Inr a \<Rightarrow>
          (case new_index vecNewNodeIndex (edge1 edge) of
             Inl e \<Rightarrow> Inl e
           | Inr b \<Rightarrow>
               (case remap_edges vecNewNodeIndex rest of
                  Inl e \<Rightarrow> Inl e
                | Inr rest' \<Rightarrow> Inr (Edge a b (edge_type edge) # rest'))))"

fun remap_faces :: "int list \<Rightarrow> Face list \<Rightarrow> error + Face list" where
  "remap_faces vecNewNodeIndex [] = Inr []"
| "remap_faces vecNewNodeIndex (face # rest) =
     (case remap_edges vecNewNodeIndex (edges face) of
        Inl e \<Rightarrow> Inl e
      | Inr es \<Rightarrow>
          (case remap_faces vecNewNodeIndex rest of
             Inl e \<Rightarrow> Inl e
           | Inr rest' \<Rightarrow> Inr (Face es # rest')))"

text \<open>
  \<^verbatim>\<open>Mesh::RemoveCoincidentNodes\<close>. It reads \<^verbatim>\<open>nodes[0]\<close> before anything else, returns
  early when every node is unique, and otherwise keeps the unique nodes and maps the
  node indices of all edges through the table.
\<close>

definition RemoveCoincidentNodes :: "Mesh \<Rightarrow> error + Mesh" where
  "RemoveCoincidentNodes m =
     (case nodes m of
        [] \<Rightarrow> Inl (Undefined ''nodes[0]'')
      | node0 # rest \<Rightarrow>
          (case dedup_pass rest 1 (kd_insert3 [] node0 0, [0], [0]) of
             Inl e \<Rightarrow> Inl e
           | Inr (kdt, vecNewNodeIndex, vecUniques) \<Rightarrow>
               if length vecUniques = length (nodes m) then Inr m
               else
                 let nodesOld = nodes m;
                     nodesNew = map (\<lambda>u. nodesOld ! nat u) vecUniques
                 in
                 (case remap_faces vecNewNodeIndex (faces m) of
                    Inl e \<Rightarrow> Inl e
                  | Inr fs \<Rightarrow> Inr (m\<lparr>nodes := nodesNew, faces := fs\<rparr>))))"

text \<open>
  No two nodes at different positions of the list are closer than the tolerance, and
  every node index on an edge of a face is an index into the node list.
\<close>

definition separated :: "Node list \<Rightarrow> bool" where
  "separated ns =
     (\<forall>i<length ns. \<forall>j<length ns.
        i \<noteq> j \<longrightarrow> ReferenceTolerance \<le> Magnitude (node_minus (ns ! i) (ns ! j)))"

definition edge_in_range :: "nat \<Rightarrow> Edge \<Rightarrow> bool" where
  "edge_in_range n e = (0 \<le> edge0 e \<and> edge0 e < int n \<and> 0 \<le> edge1 e \<and> edge1 e < int n)"

definition faces_in_range :: "Mesh \<Rightarrow> bool" where
  "faces_in_range m =
     list_all (\<lambda>f. list_all (edge_in_range (length (nodes m))) (edges f)) (faces m)"

section \<open>The spatial index of nodes: \<^verbatim>\<open>NodeTree\<close>\<close>

text \<open>
  A \<^verbatim>\<open>NodeTree\<close> owns a k-d tree whose payloads are the indices given by the caller,
  stored in the pointer-sized data slot: 64-bit unsigned values (\<^verbatim>\<open>size_t\<close>).
\<close>

record NodeTree =
  m_minimum_spacing :: real
  m_size :: nat
  m_kdtree :: "64 word kdtree"

definition NodeTree_new :: "real \<Rightarrow> NodeTree" where
  "NodeTree_new minimum_spacing =
     \<lparr>m_minimum_spacing = minimum_spacing, m_size = 0, m_kdtree = []\<rparr>"

text \<open>
  \<^verbatim>\<open>std::numeric_limits<int>::max()\<close> as a \<^verbatim>\<open>size_t\<close>, and the sentinel
  \<^verbatim>\<open>(size_t)(InvalidNode)\<close>.
\<close>

definition int_max :: "64 word" where
  "int_max = 0x7FFFFFFF"

definition InvalidNode_size_t :: "64 word" where
  "InvalidNode_size_t = word_of_int InvalidNode"

text \<open>
  The loop of \<^verbatim>\<open>NodeTree::find\<close> over the result set, keeping the least payload seen
  below the running minimum.
\<close>

fun find_loop :: "(Node \<times> 64 word) list \<Rightarrow> 64 word \<Rightarrow> 64 word" where
  "find_loop [] iMinimalIndex = iMinimalIndex"
| "find_loop (item # res) iMinimalIndex =
     find_loop res (if snd item < iMinimalIndex then snd item else iMinimalIndex)"

text \<open>
  \<^verbatim>\<open>NodeTree::find\<close>. The running minimum starts at \<^verbatim>\<open>int\<close>'s largest value, and the
  code asserts that it has moved. The macro \<^verbatim>\<open>_ASSERT\<close> is defined in the absent
  \<^verbatim>\<open>Exception.h\<close> and the spec does not describe it, so the model takes what it does as
  the parameter \<open>assertions\<close>: when set, a failed assertion raises, like the other
  macros of that header; when not, assertions are compiled out and the function returns
  the running minimum as it is.
\<close>

definition NodeTree_find :: "bool \<Rightarrow> NodeTree \<Rightarrow> Node \<Rightarrow> error + 64 word" where
  "NodeTree_find assertions t node =
     (let kdresNearestRange = kd_nearest_range3 (m_kdtree t) node (m_minimum_spacing t) in
      if length kdresNearestRange = 0 then Inr InvalidNode_size_t
      else
        let iMinimalIndex = find_loop kdresNearestRange int_max in
        if assertions \<and> iMinimalIndex = int_max then Inl (Exception ''Assertion failure'' [])
        else Inr iMinimalIndex)"

text \<open>
  \<^verbatim>\<open>NodeTree::find_or_insert\<close>. The result of \<^verbatim>\<open>find\<close> is stored in an \<^verbatim>\<open>int\<close> (its
  low 32 bits) and converted back to \<^verbatim>\<open>size_t\<close> with its sign for the comparison
  with the sentinel and for the return.
\<close>

definition NodeTree_find_or_insert ::
  "bool \<Rightarrow> NodeTree \<Rightarrow> Node \<Rightarrow> 64 word \<Rightarrow> error + (NodeTree \<times> 64 word)" where
  "NodeTree_find_or_insert assertions t node index =
     (case NodeTree_find assertions t node of
        Inl e \<Rightarrow> Inl e
      | Inr found \<Rightarrow>
          let findindex = (ucast found :: 32 word) in
          if (scast findindex :: 64 word) \<noteq> InvalidNode_size_t then
            Inr (t, scast findindex)
          else
            Inr (t\<lparr>m_kdtree := kd_insert3 (m_kdtree t) node index, m_size := m_size t + 1\<rparr>,
                 index))"

text \<open>A sequence of calls of \<^verbatim>\<open>find_or_insert\<close>, each with a point and an index.\<close>

fun insert_all :: "bool \<Rightarrow> NodeTree \<Rightarrow> (Node \<times> 64 word) list \<Rightarrow> error + NodeTree" where
  "insert_all assertions t [] = Inr t"
| "insert_all assertions t (c # calls) =
     (case NodeTree_find_or_insert assertions t (fst c) (snd c) of
        Inl e \<Rightarrow> Inl e
      | Inr (t', ix) \<Rightarrow> insert_all assertions t' calls)"

text \<open>
  The claim's result, in its words: the smallest index among the inserted points within
  the minimum spacing of the query, or the sentinel when there is none.
\<close>

definition smallest_in_range :: "NodeTree \<Rightarrow> Node \<Rightarrow> 64 word" where
  "smallest_in_range t node =
     (let js = map snd (filter (\<lambda>e. dist_sq (fst e) node
                                    \<le> m_minimum_spacing t * m_minimum_spacing t) (m_kdtree t))
      in if js = [] then InvalidNode_size_t else Min (set js))"

definition indices_below_int_max :: "(Node \<times> 64 word) list \<Rightarrow> bool" where
  "indices_below_int_max es = list_all (\<lambda>e. snd e < int_max) es"

section \<open>Topology: \<^verbatim>\<open>ConstructEdgeMap\<close> and \<^verbatim>\<open>ConstructReverseNodeArray\<close>\<close>

text \<open>
  Modelled from the spec: \<^verbatim>\<open>FacePair\<close> and the ordering of \<^verbatim>\<open>Edge\<close> keys are declared
  in the absent header. By the spec the edge map is keyed by (origin, destination), and
  a face pair records the ids of the incident faces with no cap on their number.
\<close>

definition AddFace :: "nat list \<Rightarrow> nat \<Rightarrow> nat list" where
  "AddFace facepair ixFace = facepair @ [ixFace]"

text \<open>
  The body of the inner loop of \<^verbatim>\<open>ConstructEdgeMap\<close> for edge \<open>k\<close> of face \<open>i\<close>: an
  edge whose two ends are the same node is skipped; \<^verbatim>\<open>insert\<close> keeps an entry that is
  already there; then the face is added to the entry.
\<close>

definition ConstructEdgeMap_edge ::
  "Face \<Rightarrow> nat \<Rightarrow> nat \<Rightarrow> ((int \<times> int) \<rightharpoonup> nat list) \<Rightarrow> ((int \<times> int) \<rightharpoonup> nat list)" where
  "ConstructEdgeMap_edge face i k em =
     (let nEdges = length (edges face) in
      if face_at face k = face_at face ((k + 1) mod nEdges) then em
      else
        let edge = (face_at face k, face_at face ((k + 1) mod nEdges)) in
        case em edge of
          None \<Rightarrow> em(edge \<mapsto> AddFace [] i)
        | Some facepair \<Rightarrow> em(edge \<mapsto> AddFace facepair i))"

fun ConstructEdgeMap_faces ::
  "Face list \<Rightarrow> nat \<Rightarrow> ((int \<times> int) \<rightharpoonup> nat list) \<Rightarrow> ((int \<times> int) \<rightharpoonup> nat list)" where
  "ConstructEdgeMap_faces [] i em = em"
| "ConstructEdgeMap_faces (face # rest) i em =
     ConstructEdgeMap_faces rest (i + 1)
       (fold (ConstructEdgeMap_edge face i) [0..<length (edges face)] em)"

text \<open>\<^verbatim>\<open>Mesh::ConstructEdgeMap\<close>: the map is cleared and rebuilt from the faces.\<close>

definition ConstructEdgeMap :: "Mesh \<Rightarrow> Mesh" where
  "ConstructEdgeMap m = m\<lparr>edgemap := ConstructEdgeMap_faces (faces m) 0 Map.empty\<rparr>"

text \<open>
  \<^verbatim>\<open>Mesh::ConstructReverseNodeArray\<close>: one empty set per node, then the id of every
  face is inserted into the set of the origin of each of its edges. An origin that is
  not an index into the array is an access outside it.
\<close>

fun ConstructReverseNodeArray_edges ::
  "Edge list \<Rightarrow> nat \<Rightarrow> nat set list \<Rightarrow> error + nat set list" where
  "ConstructReverseNodeArray_edges [] i rna = Inr rna"
| "ConstructReverseNodeArray_edges (edge # rest) i rna =
     (let ixNode = edge0 edge in
      if 0 \<le> ixNode \<and> ixNode < int (length rna) then
        ConstructReverseNodeArray_edges rest i (rna[nat ixNode := insert i (rna ! nat ixNode)])
      else Inl (Undefined ''revnodearray''))"

fun ConstructReverseNodeArray_faces ::
  "Face list \<Rightarrow> nat \<Rightarrow> nat set list \<Rightarrow> error + nat set list" where
  "ConstructReverseNodeArray_faces [] i rna = Inr rna"
| "ConstructReverseNodeArray_faces (face # rest) i rna =
     (case ConstructReverseNodeArray_edges (edges face) i rna of
        Inl e \<Rightarrow> Inl e
      | Inr rna' \<Rightarrow> ConstructReverseNodeArray_faces rest (i + 1) rna')"

definition ConstructReverseNodeArray :: "Mesh \<Rightarrow> error + Mesh" where
  "ConstructReverseNodeArray m =
     (case ConstructReverseNodeArray_faces (faces m) 0 (replicate (length (nodes m)) {}) of
        Inl e \<Rightarrow> Inl e
      | Inr rna \<Rightarrow> Inr (m\<lparr>revnodearray := rna\<rparr>))"

section \<open>Reading a grid file: \<^verbatim>\<open>Mesh::Read\<close>\<close>

text \<open>
  The NetCDF library is outside the repository; a file is modelled by what its accessors
  return. An attribute is what \<^verbatim>\<open>type() == ncFloat\<close>, \<^verbatim>\<open>as_string(0)\<close> and
  \<^verbatim>\<open>as_float(0)\<close> return. A variable has its dimensions (names and sizes), its
  attributes, and the values \<^verbatim>\<open>get\<close> delivers at \<open>(i, j)\<close> as integers and as doubles
  (a variable of one dimension is read at \<open>(i, 0)\<close>). A file has the result of
  \<^verbatim>\<open>is_valid()\<close>, its global attributes, its dimensions in file order and its variables.
\<close>

record NcAtt =
  att_is_float :: bool
  att_as_string :: string
  att_as_float :: real

record NcVar =
  var_dims :: "(string \<times> nat) list"
  var_atts :: "(string \<times> NcAtt) list"
  var_ints :: "nat \<Rightarrow> nat \<Rightarrow> int"
  var_doubles :: "nat \<Rightarrow> nat \<Rightarrow> real"

record NcFile =
  nc_valid :: bool
  nc_atts :: "(string \<times> NcAtt) list"
  nc_dims :: "(string \<times> nat) list"
  nc_vars :: "(string \<times> NcVar) list"

definition get_att :: "NcFile \<Rightarrow> string \<Rightarrow> NcAtt option" where
  "get_att ncFile name = map_of (nc_atts ncFile) name"

definition get_dim :: "NcFile \<Rightarrow> string \<Rightarrow> nat option" where
  "get_dim ncFile name = map_of (nc_dims ncFile) name"

definition get_var :: "NcFile \<Rightarrow> string \<Rightarrow> NcVar option" where
  "get_var ncFile name = map_of (nc_vars ncFile) name"

text \<open>
  The decimal digits that \<^verbatim>\<open>snprintf\<close> writes for \<^verbatim>\<open>%i\<close>; the buffers of 33 characters
  are long enough for every block number of less than nineteen digits.
\<close>

definition digit_char :: "nat \<Rightarrow> char" where
  "digit_char d = ''0123456789'' ! d"

function string_of_nat :: "nat \<Rightarrow> string" where
  "string_of_nat n =
     (if n < 10 then [digit_char n] else string_of_nat (n div 10) @ [digit_char (n mod 10)])"
  by pat_completeness auto
termination
  by (relation "measure id") auto

declare string_of_nat.simps [simp del]

text \<open>
  Modelled from the spec: the constructor \<^verbatim>\<open>Face(n)\<close> and \<^verbatim>\<open>Face::SetNode\<close> are
  declared in the absent header. A face is a closed cycle of edges
  (\<open>edge[k].destination = edge[k+1].origin\<close>), so setting node \<open>k\<close> of the cycle sets the
  origin of edge \<open>k\<close> and the destination of the edge before it; a new face has \<open>n\<close>
  edges between invalid nodes. A position outside the edges is an access outside the
  vector.
\<close>

definition Face_new :: "nat \<Rightarrow> Face" where
  "Face_new edge_count = Face (replicate edge_count (Edge InvalidNode InvalidNode 0))"

definition SetNode :: "Face \<Rightarrow> nat \<Rightarrow> int \<Rightarrow> error + Face" where
  "SetNode face ixLocal ixNode =
     (let nEdges = length (edges face) in
      if ixLocal < nEdges then
        let es = edges face;
            es1 = es[ixLocal := Edge ixNode (edge1 (es ! ixLocal)) (edge_type (es ! ixLocal))];
            ixPrev = (ixLocal + nEdges - 1) mod nEdges;
            es2 = es1[ixPrev := Edge (edge0 (es1 ! ixPrev)) ixNode (edge_type (es1 ! ixPrev))]
        in Inr (Face es2)
      else Inl (Undefined ''edges''))"

text \<open>\<^verbatim>\<open>std::vector::resize(n, v)\<close>: the first \<open>n\<close> entries, extended by copies of \<open>v\<close>.\<close>

definition resize :: "nat \<Rightarrow> 'a \<Rightarrow> 'a list \<Rightarrow> 'a list" where
  "resize n v xs = take n xs @ replicate (n - length xs) v"


text \<open>
  The ICON branch. The three checks on a coordinate variable (the source repeats them
  for x, y and z), the loop over the vertices of one cell with its range check, and
  the loop over the cells. The test after \<^verbatim>\<open>get_dim("cell")\<close> looks at \<^verbatim>\<open>dimVertex\<close>
  again, so a missing dimension \<^verbatim>\<open>cell\<close> is first noticed when its size is read through
  the null pointer. The branch returns without removing coincident nodes.
\<close>

definition ICON_coordinate :: "string \<Rightarrow> NcFile \<Rightarrow> string \<Rightarrow> error + NcVar" where
  \<open>ICON_coordinate strFile ncFile name =
     (case get_var ncFile name of
        None \<Rightarrow>
          Inl (Exception (''ICON grid file "%s" missing variable "'' @ name @ ''"'') [S strFile])
      | Some var \<Rightarrow>
          if length (var_dims var) \<noteq> 1 then
            Inl (Exception (''ICON grid file "%s" variable "'' @ name
                            @ ''" must have dimension 1'') [S strFile])
          else if fst (var_dims var ! 0) \<noteq> ''vertex'' then
            Inl (Exception (''ICON grid file "%s" variable "'' @ name
                            @ ''" dimension 0 must have name "vertex"'') [S strFile])
          else Inr var)\<close>

fun ICON_cell ::
  "string \<Rightarrow> NcVar \<Rightarrow> nat \<Rightarrow> nat \<Rightarrow> nat list \<Rightarrow> Face \<Rightarrow> error + Face" where
  \<open>ICON_cell strFile varVertexOfCell nNodes i [] face = Inr face\<close>
| \<open>ICON_cell strFile varVertexOfCell nNodes i (j # js) face =
     (let v = var_ints varVertexOfCell j i in
      if v < 1 \<or> v > int nNodes then
        Inl (Exception ''ICON grid file "%s" vertex %li cell %li out of range (%li)''
               [S strFile, I (int j), I (int i), I v])
      else
        case SetNode face j (v - 1) of
          Inl e \<Rightarrow> Inl e
        | Inr face' \<Rightarrow> ICON_cell strFile varVertexOfCell nNodes i js face')\<close>

fun ICON_cells ::
  "string \<Rightarrow> NcVar \<Rightarrow> nat \<Rightarrow> nat \<Rightarrow> nat \<Rightarrow> Face list \<Rightarrow> error + Face list" where
  "ICON_cells strFile varVertexOfCell nNodes lVerticesPerCell i [] = Inr []"
| "ICON_cells strFile varVertexOfCell nNodes lVerticesPerCell i (face # rest) =
     (case ICON_cell strFile varVertexOfCell nNodes i [0..<lVerticesPerCell] face of
        Inl e \<Rightarrow> Inl e
      | Inr face' \<Rightarrow>
          (case ICON_cells strFile varVertexOfCell nNodes lVerticesPerCell (i + 1) rest of
             Inl e \<Rightarrow> Inl e
           | Inr rest' \<Rightarrow> Inr (face' # rest')))"

definition Read_ICON :: "Mesh \<Rightarrow> string \<Rightarrow> NcFile \<Rightarrow> error + Mesh" where
  \<open>Read_ICON m strFile ncFile =
     (case get_dim ncFile ''vertex'' of
        None \<Rightarrow> Inl (Exception ''ICON grid file "%s" missing dimension "vertex"'' [S strFile])
      | Some nVertex \<Rightarrow>
     (case ICON_coordinate strFile ncFile ''cartesian_x_vertices'' of
        Inl e \<Rightarrow> Inl e
      | Inr varICONX \<Rightarrow>
     (case ICON_coordinate strFile ncFile ''cartesian_y_vertices'' of
        Inl e \<Rightarrow> Inl e
      | Inr varICONY \<Rightarrow>
     (case ICON_coordinate strFile ncFile ''cartesian_z_vertices'' of
        Inl e \<Rightarrow> Inl e
      | Inr varICONZ \<Rightarrow>
     (case get_var ncFile ''vertex_of_cell'' of
        None \<Rightarrow>
          Inl (Exception ''ICON grid file "%s" missing variable "vertex_of_cell"'' [S strFile])
      | Some varVertexOfCell \<Rightarrow>
          if length (var_dims varVertexOfCell) \<noteq> 2 then
            Inl (Exception ''ICON grid file "%s" variable "vertex_of_cell" must have dimension 2''
                   [S strFile])
          else if fst (var_dims varVertexOfCell ! 1) \<noteq> ''cell'' then
            Inl (Exception
                   ''ICON grid file "%s" variable "vertex_of_cell" dimension 1 must have name "cell"''
                   [S strFile])
          else
            (case get_dim ncFile ''cell'' of
               None \<Rightarrow> Inl (Undefined ''dimCell'')
             | Some nCell \<Rightarrow>
                 let lVerticesPerCell = snd (var_dims varVertexOfCell ! 0);
                     nodesNew = map (\<lambda>i. Node (var_doubles varICONX i 0)
                                              (var_doubles varICONY i 0)
                                              (var_doubles varICONZ i 0)) [0..<nVertex];
                     facesNew = resize nCell (Face_new lVerticesPerCell) (faces m)
                 in
                 (case ICON_cells strFile varVertexOfCell nVertex lVerticesPerCell 0 facesNew of
                    Inl e \<Rightarrow> Inl e
                  | Inr facesSet \<Rightarrow>
                      Inr (m\<lparr>nodes := nodesNew, faces := facesSet\<rparr>))))))))\<close>

text \<open>
  The SCRIP branch. Modelled from the spec: \<^verbatim>\<open>STLStringHelper::ToLower\<close> is not among the
  sources; the unit is ``inferred case-insensitively'', so it lowers the ASCII capitals.
\<close>

definition ToLower :: "string \<Rightarrow> string" where
  "ToLower str =
     map (\<lambda>c. if 65 \<le> (of_char c :: nat) \<and> (of_char c :: nat) \<le> 90
              then char_of ((of_char c :: nat) + 32) else c) str"

definition units_degrees :: "NcVar \<Rightarrow> bool" where
  "units_degrees var =
     (case map_of (var_atts var) ''units'' of
        None \<Rightarrow> False
      | Some att \<Rightarrow> ToLower (att_as_string att) = ''degrees'')"

fun SetNodes :: "nat list \<Rightarrow> (nat \<Rightarrow> int) \<Rightarrow> Face \<Rightarrow> error + Face" where
  "SetNodes [] ixNodes face = Inr face"
| "SetNodes (j # js) ixNodes face =
     (case SetNode face j (ixNodes j) of
        Inl e \<Rightarrow> Inl e
      | Inr face' \<Rightarrow> SetNodes js ixNodes face')"

fun SCRIP_faces :: "nat \<Rightarrow> nat list \<Rightarrow> error + Face list" where
  "SCRIP_faces nGridCorners [] = Inr []"
| "SCRIP_faces nGridCorners (i # rest) =
     (case SetNodes [0..<nGridCorners] (\<lambda>j. int (i * nGridCorners + j)) (Face_new nGridCorners) of
        Inl e \<Rightarrow> Inl e
      | Inr faceNew \<Rightarrow>
          (case SCRIP_faces nGridCorners rest of
             Inl e \<Rightarrow> Inl e
           | Inr rest' \<Rightarrow> Inr (faceNew # rest')))"

definition SCRIP_node :: "bool \<Rightarrow> bool \<Rightarrow> real \<Rightarrow> real \<Rightarrow> Node" where
  "SCRIP_node fConvertLonToRadians fConvertLatToRadians lon lat =
     (let dLon = (if fConvertLonToRadians then lon / 180 * pi else lon);
          dLat0 = (if fConvertLatToRadians then lat / 180 * pi else lat);
          dLat1 = (if dLat0 > 0.5 * pi then 0.5 * pi else dLat0);
          dLat = (if dLat1 < - 0.5 * pi then - 0.5 * pi else dLat1)
      in Node (cos dLon * cos dLat) (sin dLon * cos dLat) (sin dLat))"

definition Read_SCRIP :: "Mesh \<Rightarrow> string \<Rightarrow> NcFile \<Rightarrow> error + Mesh" where
  \<open>Read_SCRIP m strFile ncFile =
     (case get_var ncFile ''grid_corner_lat'' of
        None \<Rightarrow>
          Inl (Exception ''SCRIP Grid file "%s" is missing variable "grid_corner_lat"''
                 [S strFile])
      | Some varGridCornerLat \<Rightarrow>
     (case get_var ncFile ''grid_corner_lon'' of
        None \<Rightarrow>
          Inl (Exception ''SCRIP Grid file "%s" is missing variable "grid_corner_lon"''
                 [S strFile])
      | Some varGridCornerLon \<Rightarrow>
     (case get_dim ncFile ''grid_size'' of
        None \<Rightarrow> Inl (Undefined ''dimGridSize'')
      | Some nGridSize \<Rightarrow>
     (case get_dim ncFile ''grid_corners'' of
        None \<Rightarrow> Inl (Undefined ''dimGridCorners'')
      | Some nGridCorners \<Rightarrow>
          let fConvertLonToRadians = units_degrees varGridCornerLon;
              fConvertLatToRadians = units_degrees varGridCornerLat
          in
          (case (case get_var ncFile ''grid_imask'' of
                   None \<Rightarrow> Inr (vecMask m)
                 | Some varMask \<Rightarrow>
                     if length (var_dims varMask) \<noteq> 1 then
                       Inl (Exception
                         ''Unknown format of variable "grid_imask": More than one dimension'' [])
                     else if snd (var_dims varMask ! 0) \<noteq> nGridSize then
                       Inl (Exception
                         ''Unknown format of variable "grid_imask": Incorrect first dimension size''
                         [])
                     else Inr (map (\<lambda>i. var_ints varMask i 0) [0..<nGridSize])) of
             Inl e \<Rightarrow> Inl e
           | Inr vecMaskNew \<Rightarrow>
               (case SCRIP_faces nGridCorners [0..<nGridSize] of
                  Inl e \<Rightarrow> Inl e
                | Inr facesNew \<Rightarrow>
                    let nodesNew =
                          concat (map (\<lambda>i. map (\<lambda>j.
                              SCRIP_node fConvertLonToRadians fConvertLatToRadians
                                (var_doubles varGridCornerLon i j)
                                (var_doubles varGridCornerLat i j)) [0..<nGridCorners])
                            [0..<nGridSize])
                    in Inr (m\<lparr>nodes := nodesNew, faces := facesNew, vecMask := vecMaskNew\<rparr>)))))))\<close>


text \<open>
  The Exodus branch. The arrays loaded for one block: connectivity, global ids, edge
  types and the two parent arrays. Modelled from the spec: \<^verbatim>\<open>DataArray1D\<close> and
  \<^verbatim>\<open>DataArray2D\<close> are not among the sources; an array that no variable is read into
  holds zeros.
\<close>

record ExodusBlock =
  nNodesPerElement :: nat
  nElementCount :: nat
  iConnect :: "nat \<Rightarrow> nat \<Rightarrow> int"
  iGlobalId :: "nat \<Rightarrow> int"
  iEdgeType :: "nat \<Rightarrow> nat \<Rightarrow> int"
  iParentA :: "nat \<Rightarrow> int"
  iParentB :: "nat \<Rightarrow> int"

text \<open>\<^verbatim>\<open>flVersion == 4.98f\<close>, the version attribute being the float nearest to 4.98.\<close>

definition is_legacy :: "real \<Rightarrow> bool" where
  "is_legacy flVersion = (flVersion = 498 / 100)"

definition Exodus_global_id ::
  "string \<Rightarrow> NcFile \<Rightarrow> real \<Rightarrow> nat \<Rightarrow> error + (nat \<Rightarrow> int)" where
  \<open>Exodus_global_id strFile ncFile flVersion n =
     (if is_legacy flVersion then Inr (\<lambda>i. int i + 1)
      else
        let szGlobalId = ''global_id'' @ string_of_nat (n + 1) in
        case get_var ncFile szGlobalId of
          None \<Rightarrow>
            Inl (Exception ''Exodus Grid file "%s" is missing variable "%s"''
                   [S strFile, S szGlobalId])
        | Some varGlobalId \<Rightarrow> Inr (\<lambda>i. var_ints varGlobalId i 0))\<close>

definition szParentA :: "real \<Rightarrow> nat \<Rightarrow> string" where
  "szParentA flVersion n =
     (if is_legacy flVersion then ''face_source_1'' else ''el_parent_a'' @ string_of_nat (n + 1))"

definition szParentB :: "real \<Rightarrow> nat \<Rightarrow> string" where
  "szParentB flVersion n =
     (if is_legacy flVersion then ''face_source_2'' else ''el_parent_b'' @ string_of_nat (n + 1))"

text \<open>
  Loading a parent variable: a missing variable throws when the parent array of the
  mesh is not empty; a variable that is there makes an empty parent array as long as
  the total number of elements, and is read.
\<close>

definition Exodus_parent ::
  "string \<Rightarrow> NcFile \<Rightarrow> string \<Rightarrow> nat \<Rightarrow> int list \<Rightarrow> error + (int list \<times> (nat \<Rightarrow> int))" where
  \<open>Exodus_parent strFile ncFile szParent nTotalElementCount vecFaceIx =
     (case get_var ncFile szParent of
        None \<Rightarrow>
          if length vecFaceIx \<noteq> 0 then
            Inl (Exception ''Exodus Grid file "%s" is missing variable "%s"''
                   [S strFile, S szParent])
          else Inr (vecFaceIx, \<lambda>i. 0)
      | Some varParent \<Rightarrow>
          Inr (if length vecFaceIx = 0 then resize nTotalElementCount 0 vecFaceIx else vecFaceIx,
               \<lambda>i. var_ints varParent i 0))\<close>

text \<open>
  ``Put local data into global structures'': the nodes and edge types of one face, the
  assignment into a parent array when it is not empty, and the loop over the elements
  of a block. Only the upper bound of a global id is tested; \<^verbatim>\<open>faces[iGlobalId[i] - 1]\<close>
  with a global id below 1 is an access outside the vector. The node ids of the
  connectivity are not tested.
\<close>

fun Exodus_face :: "(nat \<Rightarrow> int) \<Rightarrow> (nat \<Rightarrow> int) \<Rightarrow> nat list \<Rightarrow> Face \<Rightarrow> error + Face" where
  "Exodus_face connect types [] face = Inr face"
| "Exodus_face connect types (k # ks) face =
     (case SetNode face k (connect k - 1) of
        Inl e \<Rightarrow> Inl e
      | Inr face' \<Rightarrow>
          let es = edges face' in
          Exodus_face connect types ks
            (Face (es[k := Edge (edge0 (es ! k)) (edge1 (es ! k)) (types k)])))"

definition set_parent :: "string \<Rightarrow> int list \<Rightarrow> int \<Rightarrow> int \<Rightarrow> error + int list" where
  "set_parent name vecFaceIx ix parent =
     (if length vecFaceIx \<noteq> 0 then
        (if 0 \<le> ix \<and> ix < int (length vecFaceIx) then Inr (vecFaceIx[nat ix := parent - 1])
         else Inl (Undefined name))
      else Inr vecFaceIx)"

fun Exodus_elements :: "nat \<Rightarrow> ExodusBlock \<Rightarrow> nat list \<Rightarrow> Mesh \<Rightarrow> error + Mesh" where
  "Exodus_elements nTotalElementCount blk [] m = Inr m"
| "Exodus_elements nTotalElementCount blk (i # rest) m =
     (if iGlobalId blk i - 1 \<ge> int nTotalElementCount then
        Inl (Exception ''global_id %i out of range [1,%i]''
               [I (iGlobalId blk i), I (int nTotalElementCount)])
      else if \<not> (0 \<le> iGlobalId blk i - 1 \<and> iGlobalId blk i - 1 < int (length (faces m))) then
        Inl (Undefined ''faces'')
      else
        case Exodus_face (iConnect blk i) (iEdgeType blk i) [0..<nNodesPerElement blk]
               (Face_new (nNodesPerElement blk)) of
          Inl e \<Rightarrow> Inl e
        | Inr face \<Rightarrow>
            (case set_parent ''vecSourceFaceIx'' (vecSourceFaceIx m) (iGlobalId blk i - 1)
                    (iParentA blk i) of
               Inl e \<Rightarrow> Inl e
             | Inr vecSource \<Rightarrow>
                 (case set_parent ''vecTargetFaceIx'' (vecTargetFaceIx m) (iGlobalId blk i - 1)
                         (iParentB blk i) of
                    Inl e \<Rightarrow> Inl e
                  | Inr vecTarget \<Rightarrow>
                      Exodus_elements nTotalElementCount blk rest
                        (m\<lparr>faces := (faces m)[nat (iGlobalId blk i - 1) := face],
                           vecSourceFaceIx := vecSource,
                           vecTargetFaceIx := vecTarget\<rparr>))))"

text \<open>One pass of the loop over the blocks, and the loop.\<close>

definition Read_Exodus_block ::
  "string \<Rightarrow> NcFile \<Rightarrow> real \<Rightarrow> nat \<Rightarrow> Mesh \<Rightarrow> nat \<Rightarrow> error + Mesh" where
  \<open>Read_Exodus_block strFile ncFile flVersion nTotalElementCount m n =
     (let szNodesPerElement = ''num_nod_per_el'' @ string_of_nat (n + 1);
          szElementsInBlock = ''num_el_in_blk'' @ string_of_nat (n + 1);
          szConnect = ''connect'' @ string_of_nat (n + 1);
          szEdgeType = (if is_legacy flVersion then ''edge_type''
                        else ''edge_type'' @ string_of_nat (n + 1))
      in
      case get_dim ncFile szNodesPerElement of
        None \<Rightarrow>
          Inl (Exception ''Exodus Grid file "%s" is missing dimension "%s"''
                 [S strFile, S szNodesPerElement])
      | Some nodesPerElement \<Rightarrow>
     (case get_dim ncFile szElementsInBlock of
        None \<Rightarrow>
          Inl (Exception ''Exodus Grid file "%s" is missing dimension "%s"''
                 [S strFile, S szElementsInBlock])
      | Some elementCount \<Rightarrow>
     (case get_var ncFile szConnect of
        None \<Rightarrow>
          Inl (Exception ''Exodus Grid file "%s" is missing variable "%s"''
                 [S strFile, S szConnect])
      | Some varConnect \<Rightarrow>
     (case Exodus_global_id strFile ncFile flVersion n of
        Inl e \<Rightarrow> Inl e
      | Inr global_id \<Rightarrow>
     (case Exodus_parent strFile ncFile (szParentA flVersion n) nTotalElementCount
             (vecSourceFaceIx m) of
        Inl e \<Rightarrow> Inl e
      | Inr (vecSource, parentA) \<Rightarrow>
     (case Exodus_parent strFile ncFile (szParentB flVersion n) nTotalElementCount
             (vecTargetFaceIx m) of
        Inl e \<Rightarrow> Inl e
      | Inr (vecTarget, parentB) \<Rightarrow>
          Exodus_elements nTotalElementCount
            \<lparr>nNodesPerElement = nodesPerElement, nElementCount = elementCount,
             iConnect = var_ints varConnect, iGlobalId = global_id,
             iEdgeType = (case get_var ncFile szEdgeType of
                            None \<Rightarrow> (\<lambda>i k. 0)
                          | Some varEdgeType \<Rightarrow> var_ints varEdgeType),
             iParentA = parentA, iParentB = parentB\<rparr>
            [0..<elementCount]
            (m\<lparr>vecSourceFaceIx := vecSource, vecTargetFaceIx := vecTarget\<rparr>)))))))\<close>

fun Read_Exodus_blocks ::
  "string \<Rightarrow> NcFile \<Rightarrow> real \<Rightarrow> nat \<Rightarrow> nat list \<Rightarrow> Mesh \<Rightarrow> error + Mesh" where
  "Read_Exodus_blocks strFile ncFile flVersion nTotalElementCount [] m = Inr m"
| "Read_Exodus_blocks strFile ncFile flVersion nTotalElementCount (n # ns) m =
     (case Read_Exodus_block strFile ncFile flVersion nTotalElementCount m n of
        Inl e \<Rightarrow> Inl e
      | Inr m' \<Rightarrow> Read_Exodus_blocks strFile ncFile flVersion nTotalElementCount ns m')"

text \<open>``Earlier version had incorrect parent indexing'': every parent index is incremented.\<close>

definition legacy_parents :: "string \<Rightarrow> nat \<Rightarrow> int list \<Rightarrow> error + int list" where
  "legacy_parents name nTotalElementCount vecFaceIx =
     (if length vecFaceIx \<noteq> 0 then
        (if nTotalElementCount \<le> length vecFaceIx then
           Inr (map (\<lambda>v. v + 1) (take nTotalElementCount vecFaceIx)
                @ drop nTotalElementCount vecFaceIx)
         else Inl (Undefined name))
      else Inr vecFaceIx)"

definition Read_Exodus :: "Mesh \<Rightarrow> string \<Rightarrow> NcFile \<Rightarrow> error + Mesh" where
  \<open>Read_Exodus m strFile ncFile =
     (case get_att ncFile ''version'' of
        None \<Rightarrow>
          Inl (Exception ''Exodus Grid file "%s" is missing attribute "version"'' [S strFile])
      | Some attVersion \<Rightarrow>
          if \<not> att_is_float attVersion then
            Inl (Exception ''Exodus Grid type is not of type float'' [])
          else
     (let flVersion = att_as_float attVersion in
      case get_dim ncFile ''num_nodes'' of
        None \<Rightarrow>
          Inl (Exception ''Exodus Grid file "%s" is missing dimension "num_nodes"'' [S strFile])
      | Some nNodeCount \<Rightarrow>
     (case get_dim ncFile ''num_el_blk'' of
        None \<Rightarrow>
          Inl (Exception ''Exodus Grid file "%s" is missing dimension "num_el_blk"'' [S strFile])
      | Some nElementBlocks \<Rightarrow>
     (case get_dim ncFile ''num_elem'' of
        None \<Rightarrow>
          Inl (Exception ''Exodus Grid file "%s" is missing dimension "num_elem"'' [S strFile])
      | Some nTotalElementCount \<Rightarrow>
     (case Read_Exodus_blocks strFile ncFile flVersion nTotalElementCount [0..<nElementBlocks]
             (m\<lparr>faces := resize nTotalElementCount (Face []) (faces m)\<rparr>) of
        Inl e \<Rightarrow> Inl e
      | Inr m1 \<Rightarrow>
     (case (if is_legacy flVersion
            then legacy_parents ''vecSourceFaceIx'' nTotalElementCount (vecSourceFaceIx m1)
            else Inr (vecSourceFaceIx m1)) of
        Inl e \<Rightarrow> Inl e
      | Inr vecSource \<Rightarrow>
     (case (if is_legacy flVersion
            then legacy_parents ''vecTargetFaceIx'' nTotalElementCount (vecTargetFaceIx m1)
            else Inr (vecTargetFaceIx m1)) of
        Inl e \<Rightarrow> Inl e
      | Inr vecTarget \<Rightarrow>
     (case get_var ncFile ''coord'' of
        None \<Rightarrow>
          Inl (Exception ''Exodus Grid file "%s" is missing variable "coord"'' [S strFile])
      | Some varNodes \<Rightarrow>
          Inr (m1\<lparr>nodes := map (\<lambda>i. Node (var_doubles varNodes 0 i)
                                         (var_doubles varNodes 1 i)
                                         (var_doubles varNodes 2 i)) [0..<nNodeCount],
                  vecSourceFaceIx := vecSource,
                  vecTargetFaceIx := vecTarget\<rparr>)))))))))\<close>

text \<open>
  The detection of the format: the loop counting the dimensions named \<^verbatim>\<open>grid_size\<close>,
  \<^verbatim>\<open>grid_corners\<close> and \<^verbatim>\<open>grid_rank\<close>, the test of the global attribute \<^verbatim>\<open>title\<close>,
  and \<^verbatim>\<open>Mesh::Read\<close> with the opened file as a parameter.
\<close>

fun count_SCRIP_dims :: "(string \<times> nat) list \<Rightarrow> nat \<Rightarrow> nat" where
  "count_SCRIP_dims [] iSCRIPFormat = iSCRIPFormat"
| "count_SCRIP_dims (d # rest) iSCRIPFormat =
     (let strDimName = fst d;
          c1 = (if strDimName = ''grid_size'' then iSCRIPFormat + 1 else iSCRIPFormat);
          c2 = (if strDimName = ''grid_corners'' then c1 + 1 else c1);
          c3 = (if strDimName = ''grid_rank'' then c2 + 1 else c2)
      in count_SCRIP_dims rest c3)"

definition title_is_ICON :: "NcFile \<Rightarrow> bool" where
  "title_is_ICON ncFile =
     (case get_att ncFile ''title'' of
        None \<Rightarrow> False
      | Some attICON \<Rightarrow> att_as_string attICON = ''ICON grid description'')"

definition Read :: "Mesh \<Rightarrow> string \<Rightarrow> NcFile \<Rightarrow> bool \<Rightarrow> error + Mesh" where
  \<open>Read m strFile ncFile fRemoveCoincidentNodes =
     (if strFile = [] then Inl (Exception ''No grid file specified for reading'' [])
      else if \<not> nc_valid ncFile then
        Inl (Exception ''Unable to open grid file "%s" for reading'' [S strFile])
      else if title_is_ICON ncFile then Read_ICON (m\<lparr>strFileName := strFile\<rparr>) strFile ncFile
      else if count_SCRIP_dims (nc_dims ncFile) 0 = 3 then
        (case Read_SCRIP (m\<lparr>strFileName := strFile\<rparr>) strFile ncFile of
           Inl e \<Rightarrow> Inl e
         | Inr m' \<Rightarrow> if fRemoveCoincidentNodes then RemoveCoincidentNodes m' else Inr m')
      else
        (case Read_Exodus (m\<lparr>strFileName := strFile\<rparr>) strFile ncFile of
           Inl e \<Rightarrow> Inl e
         | Inr m' \<Rightarrow> RemoveCoincidentNodes m'))\<close>

section \<open>Properties of the blocked summation\<close>

lemma block_add_other: "k \<noteq> i \<Longrightarrow> block_add v i ixRef j ! k = v ! k"
  by (induction v i ixRef j rule: block_add.induct) (subst block_add.simps, simp)

lemma block_add_at:
  "i < length v \<Longrightarrow> i < ixRef + j \<Longrightarrow>
   block_add v i ixRef j ! i =
     v ! i + (\<Sum>t = ixRef + j ..< min (ixRef + Jump) (length v). v ! t)"
proof (induction v i ixRef j rule: block_add.induct)
  case (1 v i ixRef j)
  show ?case
  proof (cases "j < Jump \<and> ixRef + j < length v")
    case False
    then show ?thesis by (subst block_add.simps) auto
  next
    case True
    let ?w = "v[i := v ! i + v ! (ixRef + j)]"
    have ih: "block_add ?w i ixRef (j + 1) ! i =
        ?w ! i + (\<Sum>t = ixRef + (j + 1) ..< min (ixRef + Jump) (length ?w). ?w ! t)"
      using True "1.prems" by (intro "1.IH") auto
    have same: "(\<Sum>t = ixRef + (j + 1) ..< min (ixRef + Jump) (length ?w). ?w ! t) =
        (\<Sum>t = ixRef + (j + 1) ..< min (ixRef + Jump) (length v). v ! t)"
      using "1.prems" by (intro sum.cong) auto
    have split: "(\<Sum>t = ixRef + j ..< min (ixRef + Jump) (length v). v ! t) =
        v ! (ixRef + j) + (\<Sum>t = ixRef + (j + 1) ..< min (ixRef + Jump) (length v). v ! t)"
      using True by (simp add: sum.atLeast_Suc_lessThan)
    show ?thesis
      using True "1.prems" ih same split by (subst block_add.simps) simp
  qed
qed

text \<open>
  The invariant of the loop over the blocks, against the array \<open>v0\<close> the pass started
  from: entries from \<open>i\<close> on are untouched, and the first \<open>i\<close> entries add up to the
  first \<open>Jump * i\<close> entries of \<open>v0\<close>.
\<close>

lemma collapse_inv:
  assumes "length v = length v0" and "v0 \<noteq> []"
    and "\<forall>k\<ge>i. k < length v0 \<longrightarrow> v ! k = v0 ! k"
    and "(\<Sum>k<i. v ! k) = (\<Sum>t<min (Jump * i) (length v0). v0 ! t)"
    and "i \<le> (length v0 - 1) div Jump + 1"
  shows "length (collapse v i) = length v0 \<and>
         (\<Sum>k<(length v0 - 1) div Jump + 1. collapse v i ! k) = (\<Sum>t<length v0. v0 ! t)"
  using assms
proof (induction v i rule: collapse.induct)
  case (1 v i)
  let ?n = "length v0"
  show ?case
  proof (cases "i \<le> (length v - 1) div Jump")
    case False
    then have i_eq: "i = (?n - 1) div Jump + 1" using "1.prems" by simp
    have "?n \<le> Jump * i" unfolding i_eq Jump_def by simp
    then have "min (Jump * i) ?n = ?n" by simp
    then show ?thesis using False "1.prems" i_eq by (subst (1 2) collapse.simps) simp
  next
    case True
    let ?w = "v[i := v ! (Jump * i)]"
    let ?w' = "block_add ?w i (Jump * i) 1"
    have n_pos: "0 < ?n" using "1.prems" by simp
    have lt: "Jump * i < ?n" using True "1.prems"(1) n_pos unfolding Jump_def by arith
    have i_lt: "i < ?n" using lt unfolding Jump_def by simp
    have len: "length ?w' = ?n" using "1.prems" by (simp add: length_block_add)
    have at: "?w' ! i =
        ?w ! i + (\<Sum>t = Jump * i + 1 ..< min (Jump * i + Jump) (length ?w). ?w ! t)"
      using i_lt "1.prems"(1) by (intro block_add_at) (auto simp: Jump_def)
    have wv: "(\<Sum>t = Jump * i + 1 ..< min (Jump * i + Jump) (length ?w). ?w ! t) =
              (\<Sum>t = Jump * i + 1 ..< min (Jump * i + Jump) ?n. v0 ! t)"
      using "1.prems"(1,3) by (intro sum.cong) (auto simp: Jump_def)
    have wi: "?w ! i = v0 ! (Jump * i)"
      using i_lt lt "1.prems"(1,3) by (simp add: Jump_def)
    have blk: "?w' ! i = (\<Sum>t = Jump * i ..< min (Jump * i + Jump) ?n. v0 ! t)"
      using at wv wi lt by (simp add: sum.atLeast_Suc_lessThan Jump_def)
    have below: "(\<Sum>k<i. ?w' ! k) = (\<Sum>k<i. v ! k)"
      by (intro sum.cong) (auto simp: block_add_other)
    have above: "\<forall>k\<ge>i + 1. k < ?n \<longrightarrow> ?w' ! k = v0 ! k"
      using "1.prems"(3) by (auto simp: block_add_other)
    have "(\<Sum>k<i + 1. ?w' ! k) =
        (\<Sum>t<Jump * i. v0 ! t) + (\<Sum>t = Jump * i ..< min (Jump * i + Jump) ?n. v0 ! t)"
      using below blk "1.prems"(4) lt by simp
    also have "\<dots> = (\<Sum>t<min (Jump * (i + 1)) ?n. v0 ! t)"
    proof -
      have le: "Jump * i \<le> min (Jump * (i + 1)) ?n" using lt by simp
      have "{..<min (Jump * (i + 1)) ?n} =
          {..<Jump * i} \<union> {Jump * i ..< min (Jump * (i + 1)) ?n}"
        using le by auto
      moreover have "{..<Jump * i} \<inter> {Jump * i ..< min (Jump * (i + 1)) ?n} = {}" by auto
      ultimately have "(\<Sum>t<min (Jump * (i + 1)) ?n. v0 ! t) =
          (\<Sum>t<Jump * i. v0 ! t) + (\<Sum>t = Jump * i ..< min (Jump * (i + 1)) ?n. v0 ! t)"
        by (simp add: sum.union_disjoint)
      then show ?thesis by (simp add: algebra_simps)
    qed
    finally have sums: "(\<Sum>k<i + 1. ?w' ! k) = (\<Sum>t<min (Jump * (i + 1)) ?n. v0 ! t)" .
    have bound: "i + 1 \<le> (?n - 1) div Jump + 1" using True "1.prems"(1) by simp
    have "length (collapse ?w' (i + 1)) = ?n \<and>
         (\<Sum>k<(?n - 1) div Jump + 1. collapse ?w' (i + 1) ! k) = (\<Sum>t<?n. v0 ! t)"
      using True len "1.prems"(2) above sums bound by (intro "1.IH") auto
    then show ?thesis using True by (subst (1 2) collapse.simps) simp
  qed
qed

lemma collapse_pass:
  assumes "v \<noteq> []"
  shows "sum_list (take ((length v - 1) div Jump + 1) (collapse v 0)) = sum_list v"
proof -
  let ?m = "(length v - 1) div Jump + 1"
  have inv: "length (collapse v 0) = length v \<and>
      (\<Sum>k<?m. collapse v 0 ! k) = (\<Sum>t<length v. v ! t)"
    using assms by (intro collapse_inv) auto
  have m_le: "?m \<le> length v" using assms unfolding Jump_def by (cases v) auto
  have "sum_list (take ?m (collapse v 0)) =
      (\<Sum>k = 0..<length (take ?m (collapse v 0)). take ?m (collapse v 0) ! k)"
    by (rule sum_list_sum_nth)
  also have "\<dots> = (\<Sum>k<?m. collapse v 0 ! k)"
    using inv m_le by (intro sum.cong) auto
  also have "\<dots> = sum_list v"
    using inv by (simp add: sum_list_sum_nth atLeast0LessThan)
  finally show ?thesis .
qed

text \<open>The outer loop returns on every non-empty array, with the sum of its entries.\<close>

lemma accumulate_total: "v \<noteq> [] \<Longrightarrow> accumulate v = Some (sum_list v)"
proof (induction "length v" arbitrary: v rule: less_induct)
  case less
  show ?case
  proof (cases "length v = 1")
    case True
    then obtain a where "v = [a]" by (cases v) auto
    then show ?thesis by (subst accumulate.simps) simp
  next
    case False
    let ?m = "(length v - 1) div Jump + 1"
    let ?v' = "take ?m (collapse v 0)"
    have "length v \<noteq> 0" using less.prems by simp
    then have len2: "2 \<le> length v" using False by arith
    have lenc: "length (collapse v 0) = length v"
      using collapse_inv[of v v 0] less.prems by simp
    have m_lt: "?m < length v" using len2 unfolding Jump_def by simp
    have len': "length ?v' = ?m" using lenc m_lt by simp
    have ne: "?v' \<noteq> []" using len' by (metis Suc_eq_plus1 length_0_conv nat.distinct(1))
    have "accumulate ?v' = Some (sum_list ?v')"
      using less.hyps[of ?v'] len' m_lt ne by simp
    then show ?thesis
      using False collapse_pass[OF less.prems] by (subst accumulate.simps) simp
  qed
qed

lemma naive_sum_acc: "foldl (+) a v = a + sum_list (v :: real list)"
  by (induction v arbitrary: a) (simp_all add: algebra_simps)

lemma naive_sum_sum_list: "naive_sum v = sum_list v"
  by (simp add: naive_sum_def naive_sum_acc)

text \<open>
  Claim C5. For every face list, \<^verbatim>\<open>Mesh::CalculateFaceAreas\<close> returns, and the total it
  returns (the area array collapsed in blocks of ten until one entry remains) is, in
  exact arithmetic, the naive left-to-right sum of the areas of the faces; for the empty
  face list the total is 0.
\<close>

theorem CalculateFaceAreas_total_is_naive_sum:
  "map_option snd (CalculateFaceAreas A m) =
     Some (naive_sum (map (\<lambda>f. A f (nodes m)) (faces m)))
   \<and> map_option snd (CalculateFaceAreas A (m\<lparr>faces := []\<rparr>)) = Some 0"
proof -
  have "map_option snd (CalculateFaceAreas A m) =
      Some (naive_sum (map (\<lambda>f. A f (nodes m)) (faces m)))"
  proof (cases "faces m = []")
    case True
    then show ?thesis by (simp add: CalculateFaceAreas_def naive_sum_def)
  next
    case False
    then have "accumulate (map (\<lambda>f. A f (nodes m)) (faces m)) =
        Some (sum_list (map (\<lambda>f. A f (nodes m)) (faces m)))"
      by (intro accumulate_total) simp
    then show ?thesis
      using False by (simp add: CalculateFaceAreas_def naive_sum_sum_list Let_def)
  qed
  moreover have "map_option snd (CalculateFaceAreas A (m\<lparr>faces := []\<rparr>)) = Some 0"
    by (simp add: CalculateFaceAreas_def)
  ultimately show ?thesis by simp
qed

section \<open>Properties of the containment test\<close>

text \<open>
  Values of the arithmetic: the doubles next to \<open>0.6\<close> and to \<open>1 - 0.6\<close>, the tie
  \<open>3 * 0.4\<close> that goes to the even neighbour, and the divisions by zero.
\<close>

lemma double_arithmetic_samples:
  "double_div (double_of_int 6) (double_of_int 10) = Finite False 5404319552844595 (- 53)"
  "double_sub (double_of_int 1) (Finite False 5404319552844595 (- 53)) =
     Finite False 7205759403792794 (- 54)"
  "double_mul (double_of_int 3) (Finite False 7205759403792794 (- 54)) =
     Finite False 5404319552844596 (- 52)"
  "double_div (double_of_int 1) (double_of_int 0) = Infinity False"
  "double_div (double_of_int (- 1)) (double_of_int 0) = Infinity True"
  "double_div (double_of_int 1) (double_mul (double_of_int (- 1)) (double_of_int 0)) =
     Infinity True"
  "double_div (double_of_int 0) (double_of_int 0) = NaN"
  "double_div (double_of_int (- 6)) (double_of_int (- 3)) = double_of_int 2"
  by code_simp+

lemma double_less_asym: "double_less a b \<Longrightarrow> \<not> double_less b a"
  by (cases a; cases b)
    (auto simp: common_exponent_def scaled_def min.commute split: if_splits)

lemma double_trichotomy:
  "a \<noteq> NaN \<Longrightarrow> b \<noteq> NaN \<Longrightarrow> \<not> double_less a b \<Longrightarrow> \<not> double_eq a b \<Longrightarrow> double_less b a"
  by (cases a; cases b)
    (auto simp: common_exponent_def scaled_def min.commute split: if_splits)

lemma Contains_edge_contribution:
  assumes "node_z n1 \<noteq> NaN" and "node_z n2 \<noteq> NaN"
  shows "Contains_edge n0 n1 n2 p = p + parity_contribution n0 n1 n2"
proof (cases "double_less (node_z n1) (node_z n2)")
  case True
  then show ?thesis
    unfolding Contains_edge_def parity_contribution_def surrogate_def plane_intersection_def
      interpolate_def Let_def
    by simp
next
  case False
  show ?thesis
  proof (cases "double_eq (node_z n1) (node_z n2)")
    case True
    then show ?thesis
      unfolding Contains_edge_def parity_contribution_def by simp
  next
    case ne: False
    have "double_less (node_z n2) (node_z n1)"
      using assms False ne by (rule double_trichotomy)
    then show ?thesis
      using False ne
      unfolding Contains_edge_def parity_contribution_def surrogate_def plane_intersection_def
        interpolate_def Let_def
      by simp
  qed
qed

lemma node_at_valid:
  "origins_valid f nodevec \<Longrightarrow> i < length (edges f) \<Longrightarrow>
   node_at nodevec (face_at f i) = Inr (nodevec ! nat (face_at f i))"
  by (simp add: origins_valid_def list_all_length node_at_def face_at_def)

lemma height_ordered:
  "heights_ordered f nodevec \<Longrightarrow> i < length (edges f) \<Longrightarrow>
   node_z (nodevec ! nat (face_at f i)) \<noteq> NaN"
  by (simp add: heights_ordered_def list_all_length face_at_def)

lemma Contains_loop_sum:
  shows "origins_valid f nodevec \<Longrightarrow> heights_ordered f nodevec \<Longrightarrow>
    Contains_loop f n0 nodevec i1 p =
    Inr (p + (\<Sum>i = i1..<length (edges f).
        parity_contribution n0 (fst (edge_ends f nodevec i)) (snd (edge_ends f nodevec i))))"
proof (induction f n0 nodevec i1 p rule: Contains_loop.induct)
  case (1 f n0 nodevec i1 nParity)
  show ?case
  proof (cases "i1 < length (edges f)")
    case False
    then show ?thesis by (subst Contains_loop.simps) simp
  next
    case True
    let ?g = "\<lambda>i. parity_contribution n0 (fst (edge_ends f nodevec i)) (snd (edge_ends f nodevec i))"
    have "0 < length (edges f)" using True by auto
    then have i2: "(i1 + 1) mod length (edges f) < length (edges f)"
      by (rule mod_less_divisor)
    have n1: "node_at nodevec (face_at f i1) = Inr (fst (edge_ends f nodevec i1))"
      using "1.prems" True by (simp add: node_at_valid edge_ends_def)
    have n2: "node_at nodevec (face_at f ((i1 + 1) mod length (edges f))) =
        Inr (snd (edge_ends f nodevec i1))"
      using "1.prems" i2 by (simp add: node_at_valid edge_ends_def)
    have z1: "node_z (fst (edge_ends f nodevec i1)) \<noteq> NaN"
      using "1.prems"(2) True by (simp add: height_ordered edge_ends_def)
    have z2: "node_z (snd (edge_ends f nodevec i1)) \<noteq> NaN"
      using "1.prems"(2) i2 by (simp add: height_ordered edge_ends_def)
    have ih: "Contains_loop f n0 nodevec (i1 + 1)
          (Contains_edge n0 (fst (edge_ends f nodevec i1)) (snd (edge_ends f nodevec i1)) nParity) =
        Inr (Contains_edge n0 (fst (edge_ends f nodevec i1)) (snd (edge_ends f nodevec i1)) nParity
          + (\<Sum>i = i1 + 1..<length (edges f). ?g i))"
      using True n1 n2 "1.prems" by (intro "1.IH") auto
    have split: "(\<Sum>i = i1..<length (edges f). ?g i) =
        ?g i1 + (\<Sum>i = i1 + 1..<length (edges f). ?g i)"
      using True by (simp add: sum.atLeast_Suc_lessThan)
    show ?thesis
      using True n1 n2 ih split
      by (subst Contains_loop.simps)
        (simp add: Contains_edge_contribution[OF z1 z2] Let_def)
  qed
qed

lemma plane_intersection_sym:
  "double_less (node_z n1) (node_z n2) \<or> double_less (node_z n2) (node_z n1) \<Longrightarrow>
   plane_intersection n0 n1 n2 = plane_intersection n0 n2 n1"
  by (auto simp: plane_intersection_def dest: double_less_asym)

text \<open>
  The branch on the end of smaller \<open>z\<close> is what makes the intersection independent of the
  direction: interpolating from one end is not the same as interpolating from the other.
  At height \<open>0.1\<close> between \<open>(1, 2, 0)\<close> and \<open>(3, 7, 1)\<close> the two differ in the last digit.
\<close>

lemma interpolate_depends_on_end:
  "interpolate (double_div (double_of_int 1) (double_of_int 10))
       (double_node 1 2 0) (double_node 3 7 1) \<noteq>
   interpolate (double_div (double_of_int 1) (double_of_int 10))
       (double_node 3 7 1) (double_node 1 2 0)"
  by code_simp

text \<open>
  Two triangles with a query each. In the first, the edge from \<open>(0, 3, -2)\<close> to
  \<open>(0, -2, 3)\<close> meets the plane \<open>z = 1\<close> at \<open>y = 0\<close> in exact arithmetic and at
  \<open>y = 2 ^ - 52\<close> in doubles, which makes the quotient negative: the edge does not count
  and the query \<open>(-1, 1, 1)\<close> is outside. In the second, the edge from \<open>(-1, -1, -1)\<close> to
  \<open>(-1, -1, 1)\<close> meets the plane \<open>z = 0\<close> behind the query \<open>(1, 0, 0)\<close>: both \<^verbatim>\<open>dc\<close> and
  \<^verbatim>\<open>dd\<close> are negative, the quotient is positive and the edge counts.
\<close>

definition sample_triangle :: Face where
  "sample_triangle = Face [Edge 0 1 0, Edge 1 2 0, Edge 2 0 0]"

definition rounding_nodes :: "double Coordinates list" where
  "rounding_nodes = [double_node 0 3 (- 2), double_node 0 (- 2) 3, double_node 0 (- 2) (- 2)]"

definition rounding_query :: "double Coordinates" where
  "rounding_query = double_node (- 1) 1 1"

definition far_side_nodes :: "double Coordinates list" where
  "far_side_nodes =
     [double_node (- 1) (- 1) (- 1), double_node (- 1) (- 1) 1, double_node 5 (- 3) 1]"

definition far_side_query :: "double Coordinates" where
  "far_side_query = double_node 1 0 0"

lemma rounding_sample_intersection:
  "plane_intersection rounding_query (double_node 0 3 (- 2)) (double_node 0 (- 2) 3) =
     Node (Finite False 0 (- 1074)) (Finite False (2 ^ 52) (- 104)) (double_of_int 1)"
  by code_simp

lemma rounding_sample_parity: "signed_parity sample_triangle rounding_query rounding_nodes = 0"
  by code_simp

lemma far_side_sample_parity: "signed_parity sample_triangle far_side_query far_side_nodes = 1"
  by code_simp

lemma Contains_samples:
  "Contains sample_triangle rounding_query rounding_nodes = Inr False"
  "Contains sample_triangle far_side_query far_side_nodes = Inr True"
  by code_simp+

lemma samples_valid:
  "origins_valid sample_triangle rounding_nodes"
  "heights_ordered sample_triangle rounding_nodes"
  "origins_valid sample_triangle far_side_nodes"
  "heights_ordered sample_triangle far_side_nodes"
  by code_simp+

text \<open>
  Claim C1. For a face whose origins are indices into the node vector, at nodes whose \<open>z\<close>
  is not NaN, \<^verbatim>\<open>Face::Contains\<close> returns true exactly when the accumulated signed parity
  is positive: an edge contributes nothing when both ends lie strictly above or strictly
  below the query's \<open>z\<close> or have the same \<open>z\<close>, nothing when the surrogate quotient at
  its intersection with the plane is negative, and otherwise \<open>+1\<close> if it ascends and
  \<open>-1\<close> if it descends; the intersection does not depend on the direction of the edge.
  All arithmetic is that of IEEE doubles.
\<close>

theorem Contains_iff_signed_parity_positive:
  "origins_valid f nodevec \<Longrightarrow> heights_ordered f nodevec \<Longrightarrow>
     Contains f n0 nodevec = Inr (0 < signed_parity f n0 nodevec)
     \<and> (double_less (node_z n1) (node_z n2) \<or> double_less (node_z n2) (node_z n1) \<longrightarrow>
          plane_intersection n0 n1 n2 = plane_intersection n0 n2 n1)"
proof -
  assume valid: "origins_valid f nodevec" and ordered: "heights_ordered f nodevec"
  have "Contains_loop f n0 nodevec 0 0 = Inr (signed_parity f n0 nodevec)"
    using Contains_loop_sum[OF valid ordered, of n0 0 0]
    by (simp add: signed_parity_def atLeast0LessThan)
  then show ?thesis
    using plane_intersection_sym[of n1 n2 n0] by (simp add: Contains_def)
qed

theorem Contains_iff_signed_parity_positive_witness:
  "origins_valid sample_triangle rounding_nodes
   \<and> heights_ordered sample_triangle rounding_nodes
   \<and> Contains sample_triangle rounding_query rounding_nodes = Inr False
   \<and> origins_valid sample_triangle far_side_nodes
   \<and> heights_ordered sample_triangle far_side_nodes
   \<and> Contains sample_triangle far_side_query far_side_nodes = Inr True
   \<and> double_less (node_z (double_node 0 3 (- 2))) (node_z (double_node 0 (- 2) 3))
   \<and> plane_intersection rounding_query (double_node 0 3 (- 2)) (double_node 0 (- 2) 3) =
       plane_intersection rounding_query (double_node 0 (- 2) 3) (double_node 0 3 (- 2))"
proof -
  have less: "double_less (node_z (double_node 0 3 (- 2))) (node_z (double_node 0 (- 2) 3))"
    by code_simp
  show ?thesis
    using samples_valid less rounding_sample_parity far_side_sample_parity
      Contains_iff_signed_parity_positive[OF samples_valid(1) samples_valid(2),
        of rounding_query "double_node 0 3 (- 2)" "double_node 0 (- 2) 3"]
      Contains_iff_signed_parity_positive[OF samples_valid(3) samples_valid(4),
        of far_side_query]
    by simp
qed

section \<open>The orientation check and degenerate edges\<close>

text \<open>
  Four nodes of the unit sphere forming a quadrilateral that is counter-clockwise at
  three corners and concave at node 1, once with a degenerate edge \<open>(1, 1)\<close> after the
  edge that enters node 1 and once without it.
\<close>

definition dart_nodes :: "Node list" where
  "dart_nodes = [Node (- 2 / 3) (- 2 / 3) (1 / 3), Node 0 (- 3 / 5) (4 / 5),
                 Node (2 / 3) (- 2 / 3) (1 / 3), Node 0 (4 / 5) (3 / 5)]"

definition dart_face :: Face where
  "dart_face = Face [Edge 0 1 0, Edge 1 1 0, Edge 1 2 0, Edge 2 3 0, Edge 3 0 0]"

definition dart_face_stripped :: Face where
  "dart_face_stripped = Face [Edge 0 1 0, Edge 1 2 0, Edge 2 3 0, Edge 3 0 0]"

lemma Validate_nodes_dart: "Validate_nodes dart_nodes 0 = Inr ()"
  by (simp add: dart_nodes_def Magnitude_def ReferenceTolerance_def)

lemma Validate_edges_dart: "Validate_edges dart_nodes dart_face 0 = Inr ()"
  by (simp add: Validate_edges.simps skip_zero_edges.simps next_nonzero_edge.simps
      dart_face_def dart_nodes_def node_at_def node_minus_def CrossProduct_def DotProduct_def)

lemma Validate_edges_dart_stripped:
  "Validate_edges dart_nodes dart_face_stripped 0 =
     Inl (Exception ''Mesh validation failed: Clockwise or concave face detected'' [])"
  by (simp add: Validate_edges.simps skip_zero_edges.simps next_nonzero_edge.simps
      dart_face_stripped_def dart_nodes_def node_at_def node_minus_def CrossProduct_def
      DotProduct_def)

text \<open>
  Claim C2 (the code departs from it). The claim has \<^verbatim>\<open>Mesh::Validate\<close> throw when the
  orientation at the node shared by two consecutive non-degenerate edges is positive.
  On the face with the degenerate edge the consecutive non-degenerate edges \<open>(0, 1)\<close>
  and \<open>(1, 2)\<close> share node 1, where the orientation is positive, and \<^verbatim>\<open>Validate\<close>
  returns without throwing: it pairs the edge \<open>(0, 1)\<close> with the degenerate edge that
  follows it, whose orientation is zero. Without the degenerate edge the same
  quadrilateral is rejected.
\<close>

theorem Validate_passes_concave_corner_after_zero_edge:
  "Validate (empty_mesh\<lparr>nodes := dart_nodes, faces := [dart_face]\<rparr>) = Inr ()
   \<and> 0 < DotProduct (dart_nodes ! 1)
         (CrossProduct (node_minus (dart_nodes ! 0) (dart_nodes ! 1))
                       (node_minus (dart_nodes ! 2) (dart_nodes ! 1)))
   \<and> Validate (empty_mesh\<lparr>nodes := dart_nodes, faces := [dart_face_stripped]\<rparr>) =
       Inl (Exception ''Mesh validation failed: Clockwise or concave face detected'' [])"
proof -
  have "0 < DotProduct (dart_nodes ! 1)
         (CrossProduct (node_minus (dart_nodes ! 0) (dart_nodes ! 1))
                       (node_minus (dart_nodes ! 2) (dart_nodes ! 1)))"
    by (simp add: dart_nodes_def node_minus_def CrossProduct_def DotProduct_def)
  then show ?thesis
    by (simp add: Validate_def empty_mesh_def Validate_nodes_dart Validate_edges_dart
        Validate_edges_dart_stripped)
qed

section \<open>Properties of the removal of coincident nodes\<close>

lemma Magnitude_dist_sq: "Magnitude (node_minus a b) = sqrt (dist_sq a b)"
  by (simp add: Magnitude_def node_minus_def dist_sq_def)

lemma dist_sq_sym: "dist_sq a b = dist_sq b a"
  by (simp add: dist_sq_def algebra_simps)

lemma kd_nearest3_Some:
  "kdt \<noteq> [] \<Longrightarrow> \<exists>b. kd_nearest3 kdt p = Some b \<and> b \<in> set kdt \<and>
     (\<forall>e\<in>set kdt. dist_sq (fst b) p \<le> dist_sq (fst e) p)"
proof (induction kdt)
  case Nil
  then show ?case by simp
next
  case (Cons e kdt)
  show ?case
  proof (cases "kdt = []")
    case True
    then show ?thesis by simp
  next
    case False
    then obtain b where b: "kd_nearest3 kdt p = Some b" "b \<in> set kdt"
      "\<forall>e\<in>set kdt. dist_sq (fst b) p \<le> dist_sq (fst e) p"
      using Cons.IH by blast
    show ?thesis
    proof (cases "dist_sq (fst e) p \<le> dist_sq (fst b) p")
      case True
      then show ?thesis using b by (auto intro: order_trans)
    next
      case False
      then show ?thesis using b by auto
    qed
  qed
qed


text \<open>
  The invariant of the loop, against the node list \<open>ns\<close> of the mesh: the index holds the
  unique nodes found so far, each with its position among them as payload.
\<close>

definition tree_of :: "Node list \<Rightarrow> nat kdtree" where
  "tree_of U = zip U [0..<length U]"

definition dedup_inv :: "Node list \<Rightarrow> nat \<Rightarrow> nat kdtree \<times> int list \<times> int list \<Rightarrow> bool" where
  "dedup_inv ns k st =
     (case st of (kdt, vecNewNodeIndex, vecUniques) \<Rightarrow>
        length vecNewNodeIndex = k
        \<and> kdt = tree_of (map (\<lambda>u. ns ! nat u) vecUniques)
        \<and> vecUniques \<noteq> []
        \<and> length vecUniques \<le> k
        \<and> (length vecUniques = k \<longrightarrow> vecUniques = map int [0..<k])
        \<and> (\<forall>x\<in>set vecNewNodeIndex. 0 \<le> x \<and> x < int (length vecUniques))
        \<and> separated (map (\<lambda>u. ns ! nat u) vecUniques))"

lemma tree_of_snoc: "kd_insert3 (tree_of U) p (length U) = tree_of (U @ [p])"
  by (simp add: kd_insert3_def tree_of_def)

lemma tree_of_payload: "(p, d) \<in> set (tree_of U) \<Longrightarrow> d < length U"
  by (auto simp: tree_of_def dest: set_zip_rightD)

lemma tree_of_nodes: "i < length U \<Longrightarrow> (U ! i, i) \<in> set (tree_of U)"
  by (auto simp: tree_of_def set_zip)

lemma separated_snoc:
  assumes "separated U"
    and "\<forall>i<length U. ReferenceTolerance \<le> Magnitude (node_minus p (U ! i))"
  shows "separated (U @ [p])"
proof -
  have sym: "Magnitude (node_minus a b) = Magnitude (node_minus b a)" for a b
    by (simp add: Magnitude_dist_sq dist_sq_sym)
  show ?thesis
    unfolding separated_def
  proof (intro allI impI)
    fix i j
    assume i: "i < length (U @ [p])" and j: "j < length (U @ [p])" and ne: "i \<noteq> j"
    consider "i < length U" "j < length U" | "i < length U" "j = length U"
      | "i = length U" "j < length U"
      using i j ne by (simp add: less_Suc_eq) arith
    then show "ReferenceTolerance \<le> Magnitude (node_minus ((U @ [p]) ! i) ((U @ [p]) ! j))"
    proof cases
      case 1
      then show ?thesis using assms(1) ne by (simp add: separated_def nth_append)
    next
      case 2
      have "ReferenceTolerance \<le> Magnitude (node_minus p (U ! i))"
        using assms(2) 2(1) by blast
      then have "ReferenceTolerance \<le> Magnitude (node_minus (U ! i) p)"
        by (simp only: sym[of "U ! i" p])
      then show ?thesis using 2 by (simp add: nth_append)
    next
      case 3
      then show ?thesis using assms(2) by (simp add: nth_append)
    qed
  qed
qed

lemma nearest_far_all_far:
  assumes "kd_nearest3 (tree_of U) p = Some (q, d)"
    and "\<not> Magnitude (node_minus p q) < ReferenceTolerance"
    and "i < length U"
  shows "ReferenceTolerance \<le> Magnitude (node_minus p (U ! i))"
proof -
  have ne: "tree_of U \<noteq> []" using assms(1) by auto
  obtain b where b: "kd_nearest3 (tree_of U) p = Some b"
      "\<forall>e\<in>set (tree_of U). dist_sq (fst b) p \<le> dist_sq (fst e) p"
    using kd_nearest3_Some[OF ne, of p] by blast
  have "b = (q, d)" using b(1) assms(1) by simp
  then have "dist_sq q p \<le> dist_sq (U ! i) p"
    using b(2) tree_of_nodes[OF assms(3)] by force
  then have "dist_sq p q \<le> dist_sq p (U ! i)"
    by (simp only: dist_sq_sym[of p])
  then have le: "sqrt (dist_sq p q) \<le> sqrt (dist_sq p (U ! i))"
    by (rule real_sqrt_le_mono)
  have "ReferenceTolerance \<le> sqrt (dist_sq p q)"
    using assms(2) by (simp add: Magnitude_dist_sq)
  then have "ReferenceTolerance \<le> sqrt (dist_sq p (U ! i))"
    using le by (rule order_trans)
  then show ?thesis by (simp only: Magnitude_dist_sq)
qed

lemma dedup_pass_inv:
  "dedup_inv ns k st \<Longrightarrow> rest = drop k ns \<Longrightarrow> k \<le> length ns \<Longrightarrow>
   \<exists>st'. dedup_pass rest k st = Inr st' \<and> dedup_inv ns (length ns) st'"
proof (induction rest arbitrary: k st)
  case Nil
  then show ?case by simp
next
  case (Cons node rest)
  obtain kdt new uniq where st: "st = (kdt, new, uniq)" by (cases st) auto
  let ?U = "map (\<lambda>u. ns ! nat u) uniq"
  have k_lt: "k < length ns" using Cons.prems(3) Cons.prems(2)[symmetric] by (cases "k < length ns") auto
  have node: "node = ns ! k" and rest: "rest = drop (k + 1) ns"
    using Cons.prems(2) k_lt by (simp_all add: Cons_nth_drop_Suc[symmetric])
  have inv: "length new = k" "kdt = tree_of ?U" "uniq \<noteq> []" "length uniq \<le> k"
    "length uniq = k \<longrightarrow> uniq = map int [0..<k]"
    "\<forall>x\<in>set new. 0 \<le> x \<and> x < int (length uniq)" "separated ?U"
    using Cons.prems(1) by (simp_all add: dedup_inv_def st)
  have ne: "tree_of ?U \<noteq> []" using inv(3) by (simp add: tree_of_def)
  obtain q d where near: "kd_nearest3 (tree_of ?U) node = Some (q, d)"
    using kd_nearest3_Some[OF ne, of node] by (metis surj_pair)
  have d_lt: "d < length uniq"
    using kd_nearest3_Some[OF ne, of node] near tree_of_payload[of q d ?U] by auto
  show ?case
  proof (cases "Magnitude (node_minus node q) < ReferenceTolerance")
    case True
    let ?st1 = "(kdt, new @ [int d], uniq)"
    have "dedup_inv ns (k + 1) ?st1"
      using inv d_lt by (auto simp: dedup_inv_def)
    then obtain st' where "dedup_pass rest (k + 1) ?st1 = Inr st'" "dedup_inv ns (length ns) st'"
      using Cons.IH[of "k + 1" ?st1] rest k_lt by auto
    then show ?thesis using True near inv(2) by (simp add: st)
  next
    case False
    let ?st1 = "(kd_insert3 kdt node (length uniq), new @ [int (length uniq)], uniq @ [int k])"
    have far: "\<forall>i<length ?U. ReferenceTolerance \<le> Magnitude (node_minus node (?U ! i))"
      using nearest_far_all_far[OF near False] by blast
    have sep: "separated (?U @ [node])" using separated_snoc[OF inv(7) far] .
    have tree: "kd_insert3 kdt node (length uniq) = tree_of (?U @ [node])"
      using tree_of_snoc[of ?U node] inv(2) by simp
    have full: "length uniq = k \<longrightarrow> uniq @ [int k] = map int [0..<k + 1]"
      using inv(5) by auto
    have "dedup_inv ns (k + 1) ?st1"
      using inv sep tree full node by (auto simp: dedup_inv_def)
    then obtain st' where "dedup_pass rest (k + 1) ?st1 = Inr st'" "dedup_inv ns (length ns) st'"
      using Cons.IH[of "k + 1" ?st1] rest k_lt by auto
    then show ?thesis using False near inv(2) by (simp add: st)
  qed
qed


lemma remap_edges_ok:
  assumes "\<forall>x\<in>set new. 0 \<le> x \<and> x < int n'"
  shows "list_all (edge_in_range (length new)) es \<Longrightarrow>
    \<exists>es'. remap_edges new es = Inr es' \<and> list_all (edge_in_range n') es'"
proof (induction es)
  case Nil
  then show ?case by simp
next
  case (Cons edge es)
  then obtain es' where es': "remap_edges new es = Inr es'" "list_all (edge_in_range n') es'"
    by auto
  have r: "edge_in_range (length new) edge" using Cons.prems by simp
  have a: "new_index new (edge0 edge) = Inr (new ! nat (edge0 edge))"
    and b: "new_index new (edge1 edge) = Inr (new ! nat (edge1 edge))"
    using r by (simp_all add: new_index_def edge_in_range_def)
  have "nat (edge0 edge) < length new" "nat (edge1 edge) < length new"
    using r by (simp_all add: edge_in_range_def nat_less_iff)
  then have "new ! nat (edge0 edge) \<in> set new" "new ! nat (edge1 edge) \<in> set new"
    by (simp_all only: nth_mem)
  then have "edge_in_range n' (Edge (new ! nat (edge0 edge)) (new ! nat (edge1 edge)) (edge_type edge))"
    using assms by (simp add: edge_in_range_def)
  then show ?case using a b es' by simp
qed

lemma remap_faces_ok:
  assumes "\<forall>x\<in>set new. 0 \<le> x \<and> x < int n'"
  shows "list_all (\<lambda>f. list_all (edge_in_range (length new)) (edges f)) fs \<Longrightarrow>
    \<exists>fs'. remap_faces new fs = Inr fs' \<and>
      list_all (\<lambda>f. list_all (edge_in_range n') (edges f)) fs'"
proof (induction fs)
  case Nil
  then show ?case by simp
next
  case (Cons face fs)
  then obtain fs' where fs': "remap_faces new fs = Inr fs'"
      "list_all (\<lambda>f. list_all (edge_in_range n') (edges f)) fs'"
    by auto
  obtain es' where es': "remap_edges new (edges face) = Inr es'" "list_all (edge_in_range n') es'"
    using remap_edges_ok[OF assms, of "edges face"] Cons.prems by auto
  show ?case using fs' es' by simp
qed

lemma dedup_inv_init: "dedup_inv (node0 # rest) 1 (kd_insert3 [] node0 0, [0], [0])"
  by (simp add: dedup_inv_def kd_insert3_def tree_of_def separated_def)

lemma dedup_pass_nonempty:
  "\<exists>st'. dedup_pass rest 1 (kd_insert3 [] node0 0, [0], [0]) = Inr st' \<and>
     dedup_inv (node0 # rest) (length (node0 # rest)) st'"
  using dedup_pass_inv[OF dedup_inv_init, of rest node0 rest] by simp

text \<open>
  Claim C3. For a mesh with at least one node whose faces reference valid node indices
  only, \<^verbatim>\<open>Mesh::RemoveCoincidentNodes\<close> returns, and afterwards any two nodes at different
  positions are at least the reference tolerance apart and every node index on an edge of
  a face is an index into the new node list.
\<close>

theorem RemoveCoincidentNodes_separated:
  "nodes m \<noteq> [] \<Longrightarrow> faces_in_range m \<Longrightarrow>
   \<exists>m'. RemoveCoincidentNodes m = Inr m' \<and> separated (nodes m') \<and> faces_in_range m'"
proof -
  assume ne: "nodes m \<noteq> []" and fr: "faces_in_range m"
  obtain node0 rest where ns: "nodes m = node0 # rest" using ne by (cases "nodes m") auto
  obtain kdt new uniq where
    run: "dedup_pass rest 1 (kd_insert3 [] node0 0, [0], [0]) = Inr (kdt, new, uniq)"
    and inv: "dedup_inv (nodes m) (length (nodes m)) (kdt, new, uniq)"
    using dedup_pass_nonempty[of rest node0] ns by (metis prod_cases3)
  let ?U = "map (\<lambda>u. nodes m ! nat u) uniq"
  have facts: "length new = length (nodes m)"
    "length uniq = length (nodes m) \<longrightarrow> uniq = map int [0..<length (nodes m)]"
    "\<forall>x\<in>set new. 0 \<le> x \<and> x < int (length uniq)" "separated ?U"
    using inv by (simp_all add: dedup_inv_def)
  show ?thesis
  proof (cases "length uniq = length (nodes m)")
    case True
    then have "uniq = map int [0..<length (nodes m)]" using facts(2) by simp
    then have "?U = nodes m" by (simp add: map_nth comp_def)
    then have "separated (nodes m)" using facts(4) by simp
    then show ?thesis using True run ns fr by (simp add: RemoveCoincidentNodes_def)
  next
    case False
    have "list_all (\<lambda>f. list_all (edge_in_range (length new)) (edges f)) (faces m)"
      using fr facts(1) by (simp add: faces_in_range_def)
    then obtain fs' where fs': "remap_faces new (faces m) = Inr fs'"
        "list_all (\<lambda>f. list_all (edge_in_range (length uniq)) (edges f)) fs'"
      using remap_faces_ok[OF facts(3)] by blast
    have "RemoveCoincidentNodes m = Inr (m\<lparr>nodes := ?U, faces := fs'\<rparr>)"
      using False run ns fs' by (simp add: RemoveCoincidentNodes_def)
    moreover have "separated (nodes (m\<lparr>nodes := ?U, faces := fs'\<rparr>))" using facts(4) by simp
    moreover have "faces_in_range (m\<lparr>nodes := ?U, faces := fs'\<rparr>)"
      using fs'(2) by (simp add: faces_in_range_def)
    ultimately show ?thesis by blast
  qed
qed

lemma dedup_pass_error:
  "dedup_pass rest k st = Inl e \<Longrightarrow> e = Exception ''kd_nearest3() failed'' []"
proof (induction rest arbitrary: k st)
  case Nil
  then show ?case by simp
next
  case (Cons node rest)
  obtain kdt new uniq where st: "st = (kdt, new, uniq)" by (cases st) auto
  show ?case
    using Cons.prems Cons.IH
    by (auto simp: st Let_def split: option.splits if_splits prod.splits)
qed

lemma remap_edges_error:
  "remap_edges new es = Inl e \<Longrightarrow> e = Undefined ''vecNewNodeIndex''"
  by (induction es) (auto simp: new_index_def split: sum.splits if_splits)

lemma remap_faces_error:
  "remap_faces new fs = Inl e \<Longrightarrow> e = Undefined ''vecNewNodeIndex''"
  by (induction fs) (auto dest: remap_edges_error split: sum.splits)

text \<open>
  Claim C9. \<^verbatim>\<open>Mesh::RemoveCoincidentNodes\<close> reads \<^verbatim>\<open>nodes[0]\<close> before any test of the
  size: the access outside the node list happens exactly when the list is empty.
\<close>

theorem RemoveCoincidentNodes_first_access:
  "(RemoveCoincidentNodes m = Inl (Undefined ''nodes[0]'')) = (nodes m = [])"
proof (cases "nodes m")
  case Nil
  then show ?thesis by (simp add: RemoveCoincidentNodes_def)
next
  case (Cons node0 rest)
  have "RemoveCoincidentNodes m \<noteq> Inl (Undefined ''nodes[0]'')"
  proof
    assume bad: "RemoveCoincidentNodes m = Inl (Undefined ''nodes[0]'')"
    show False
    proof (cases "dedup_pass rest 1 (kd_insert3 [] node0 0, [0], [0])")
      case (Inl e)
      then have "e = Exception ''kd_nearest3() failed'' []" by (rule dedup_pass_error)
      then show False using bad Inl Cons by (simp add: RemoveCoincidentNodes_def)
    next
      case (Inr st)
      obtain kdt new uniq where st: "st = (kdt, new, uniq)" by (cases st) auto
      show False
      proof (cases "remap_faces new (faces m)")
        case (Inl e)
        then have "e = Undefined ''vecNewNodeIndex''" by (rule remap_faces_error)
        then show False
          using bad Inl Inr Cons st
          by (simp add: RemoveCoincidentNodes_def split: if_splits)
      next
        case (Inr fs)
        then show False
          using bad \<open>dedup_pass rest 1 (kd_insert3 [] node0 0, [0], [0]) = Inr st\<close> Cons st
          by (simp add: RemoveCoincidentNodes_def split: if_splits)
      qed
    qed
  qed
  then show ?thesis using Cons by simp
qed


text \<open>A mesh whose third node repeats the first, and the mesh after the removal.\<close>

definition doubled_mesh :: Mesh where
  "doubled_mesh =
     empty_mesh\<lparr>nodes := [Node 1 0 0, Node (- 1) 0 0, Node 1 0 0],
                faces := [Face [Edge 0 1 0, Edge 1 2 0, Edge 2 0 0]]\<rparr>"

definition merged_mesh :: Mesh where
  "merged_mesh =
     empty_mesh\<lparr>nodes := [Node 1 0 0, Node (- 1) 0 0],
                faces := [Face [Edge 0 1 0, Edge 1 0 0, Edge 0 0 0]]\<rparr>"

lemma Magnitude_less_tolerance:
  "(Magnitude a < ReferenceTolerance) =
     (node_x a * node_x a + node_y a * node_y a + node_z a * node_z a
        < ReferenceTolerance * ReferenceTolerance)"
proof -
  have pos: "0 \<le> ReferenceTolerance" by (simp add: ReferenceTolerance_def)
  have "sqrt (ReferenceTolerance * ReferenceTolerance) = ReferenceTolerance"
    using pos by simp
  then show ?thesis
    unfolding Magnitude_def by (metis real_sqrt_less_iff)
qed

lemma RemoveCoincidentNodes_doubled: "RemoveCoincidentNodes doubled_mesh = Inr merged_mesh"
proof -
  have near: "Magnitude (Node 0 0 0) < ReferenceTolerance"
    by (simp add: Magnitude_less_tolerance) (simp add: ReferenceTolerance_def)
  have far: "\<not> Magnitude (Node (- 2) 0 0) < ReferenceTolerance"
    by (simp add: Magnitude_less_tolerance) (simp add: ReferenceTolerance_def)
  show ?thesis
    by (simp add: RemoveCoincidentNodes_def doubled_mesh_def merged_mesh_def empty_mesh_def
        kd_insert3_def dist_sq_def node_minus_def near far new_index_def)
qed

theorem RemoveCoincidentNodes_separated_witness:
  "nodes doubled_mesh \<noteq> [] \<and> faces_in_range doubled_mesh
   \<and> RemoveCoincidentNodes doubled_mesh = Inr merged_mesh
   \<and> separated (nodes merged_mesh) \<and> faces_in_range merged_mesh"
proof -
  have ne: "nodes doubled_mesh \<noteq> []"
    by (simp add: doubled_mesh_def empty_mesh_def)
  have fr: "faces_in_range doubled_mesh"
    by (simp add: faces_in_range_def edge_in_range_def doubled_mesh_def empty_mesh_def)
  show ?thesis
    using RemoveCoincidentNodes_separated[OF ne fr] ne fr RemoveCoincidentNodes_doubled
    by auto
qed

theorem RemoveCoincidentNodes_first_access_witness:
  "nodes empty_mesh = [] \<and> RemoveCoincidentNodes empty_mesh = Inl (Undefined ''nodes[0]'')"
  using RemoveCoincidentNodes_first_access[of empty_mesh] by (simp add: empty_mesh_def)

section \<open>Properties of the spatial index\<close>

lemma find_loop_Min: "find_loop res m = Min (insert m (set (map snd res)))"
proof (induction res arbitrary: m)
  case Nil
  then show ?case by simp
next
  case (Cons item res)
  have "Min (insert (if snd item < m then snd item else m) (set (map snd res))) =
      Min (insert m (insert (snd item) (set (map snd res))))"
    by (cases "set (map snd res) = {}") (auto simp: min_def Min_insert2 not_less)
  then show ?case using Cons.IH by (simp add: insert_commute)
qed

lemma NodeTree_find_bounded:
  assumes "indices_below_int_max (m_kdtree t)"
  shows "NodeTree_find assertions t q = Inr (smallest_in_range t q)"
proof -
  let ?res = "kd_nearest_range3 (m_kdtree t) q (m_minimum_spacing t)"
  let ?S = "set (map snd ?res)"
  show ?thesis
  proof (cases "?res = []")
    case True
    then show ?thesis
      by (simp add: NodeTree_find_def smallest_in_range_def kd_nearest_range3_def)
  next
    case False
    have below: "\<forall>j\<in>?S. j < int_max"
      using assms by (auto simp: indices_below_int_max_def list_all_iff kd_nearest_range3_def)
    have ne: "?S \<noteq> {}" using False by simp
    have fin: "finite ?S" by simp
    have "Min ?S \<in> ?S" using fin ne by (rule Min_in)
    then have lt: "Min ?S < int_max" using below by blast
    have "Min (insert int_max ?S) = min int_max (Min ?S)"
      using fin ne by (rule Min_insert)
    moreover have "\<not> int_max \<le> Min ?S" using lt by simp
    ultimately have "find_loop ?res int_max = Min ?S"
      by (simp add: find_loop_Min min_def)
    then show ?thesis
      using False lt
      by (auto simp: NodeTree_find_def smallest_in_range_def kd_nearest_range3_def Let_def)
  qed
qed

lemma smallest_in_range_set:
  assumes "m_minimum_spacing t' = m_minimum_spacing t" and "set (m_kdtree t') = set (m_kdtree t)"
  shows "smallest_in_range t' q = smallest_in_range t q"
proof -
  let ?P = "\<lambda>e. dist_sq (fst e) q \<le> m_minimum_spacing t * m_minimum_spacing t"
  have "set (map snd (filter ?P (m_kdtree t'))) = set (map snd (filter ?P (m_kdtree t)))"
    using assms(2) by simp
  moreover have "(map snd (filter ?P (m_kdtree t')) = []) = (map snd (filter ?P (m_kdtree t)) = [])"
    using calculation by (metis set_empty)
  ultimately show ?thesis
    using assms(1) by (simp add: smallest_in_range_def Let_def)
qed

lemma find_or_insert_bounded:
  assumes "indices_below_int_max (m_kdtree t)" and "index < int_max"
  shows "\<exists>t' ix. NodeTree_find_or_insert assertions t node index = Inr (t', ix) \<and>
     indices_below_int_max (m_kdtree t') \<and> m_minimum_spacing t' = m_minimum_spacing t"
  using assms NodeTree_find_bounded[OF assms(1), of assertions node]
  by (auto simp: NodeTree_find_or_insert_def Let_def indices_below_int_max_def kd_insert3_def)

lemma insert_all_bounded:
  "indices_below_int_max (m_kdtree t) \<Longrightarrow> indices_below_int_max calls \<Longrightarrow>
   \<exists>t'. insert_all assertions t calls = Inr t' \<and> indices_below_int_max (m_kdtree t')
     \<and> m_minimum_spacing t' = m_minimum_spacing t"
proof (induction calls arbitrary: t)
  case Nil
  then show ?case by simp
next
  case (Cons c calls)
  have c: "snd c < int_max" and rest: "indices_below_int_max calls"
    using Cons.prems(2) by (simp_all add: indices_below_int_max_def)
  obtain t1 ix where t1: "NodeTree_find_or_insert assertions t (fst c) (snd c) = Inr (t1, ix)"
      "indices_below_int_max (m_kdtree t1)" "m_minimum_spacing t1 = m_minimum_spacing t"
    using find_or_insert_bounded[OF Cons.prems(1) c] by blast
  obtain t' where "insert_all assertions t1 calls = Inr t'" "indices_below_int_max (m_kdtree t')"
      "m_minimum_spacing t' = m_minimum_spacing t1"
    using Cons.IH[OF t1(2) rest] by blast
  then show ?case using t1 by simp
qed

text \<open>
  As long as every index is below the largest \<^verbatim>\<open>int\<close>, the sentinel start value stays
  out of the way: the calls of \<^verbatim>\<open>find_or_insert\<close> succeed, \<^verbatim>\<open>find\<close> returns the smallest
  index among the stored points within the minimum spacing of the query, or the sentinel
  \<^verbatim>\<open>InvalidNode\<close> when there is none, and the result is the same for any index holding
  the same points and indices, in whatever order the k-d tree hands them out.
\<close>

lemma NodeTree_find_below_int_max:
  "indices_below_int_max calls \<Longrightarrow>
   \<exists>t. insert_all assertions (NodeTree_new spacing) calls = Inr t
     \<and> NodeTree_find assertions t q = Inr (smallest_in_range t q)
     \<and> (\<forall>t'. m_minimum_spacing t' = m_minimum_spacing t \<and> set (m_kdtree t') = set (m_kdtree t)
           \<longrightarrow> NodeTree_find assertions t' q = NodeTree_find assertions t q)"
proof -
  assume calls: "indices_below_int_max calls"
  have "indices_below_int_max (m_kdtree (NodeTree_new spacing))"
    by (simp add: NodeTree_new_def indices_below_int_max_def)
  then obtain t where t: "insert_all assertions (NodeTree_new spacing) calls = Inr t"
      "indices_below_int_max (m_kdtree t)"
    using insert_all_bounded[OF _ calls] by blast
  have "NodeTree_find assertions t' q = NodeTree_find assertions t q"
    if "m_minimum_spacing t' = m_minimum_spacing t" "set (m_kdtree t') = set (m_kdtree t)" for t'
  proof -
    have "indices_below_int_max (m_kdtree t')"
      using t(2) that(2) by (simp add: indices_below_int_max_def list_all_iff)
    then show ?thesis
      using NodeTree_find_bounded[of t' assertions q] NodeTree_find_bounded[OF t(2), of assertions q]
        smallest_in_range_set[OF that] by simp
  qed
  then show ?thesis using t NodeTree_find_bounded[OF t(2), of assertions q] by blast
qed

lemma ucast_sentinel: "(ucast (- 1 :: 64 word) :: 32 word) = - 1"
  by (rule bit_word_eqI) (auto simp: bit_simps)

definition sample_calls :: "(Node \<times> 64 word) list" where
  "sample_calls = [(Node 0 0 0, 3), (Node 1 0 0, 1)]"

definition sample_tree :: NodeTree where
  "sample_tree =
     \<lparr>m_minimum_spacing = 3 / 5, m_size = 2,
      m_kdtree = [(Node 0 0 0, 3), (Node 1 0 0, 1)]\<rparr>"

lemma insert_all_sample:
  "insert_all assertions (NodeTree_new (3 / 5)) sample_calls = Inr sample_tree"
  by (simp add: sample_calls_def sample_tree_def NodeTree_new_def NodeTree_find_or_insert_def
      NodeTree_find_def kd_nearest_range3_def kd_insert3_def dist_sq_def
      InvalidNode_size_t_def InvalidNode_def int_max_def Let_def ucast_sentinel)

lemma NodeTree_find_sample:
  "NodeTree_find assertions sample_tree (Node (1 / 2) 0 0) = Inr 1
   \<and> NodeTree_find assertions sample_tree (Node 5 0 0) = Inr InvalidNode_size_t"
  by (simp add: NodeTree_find_def sample_tree_def kd_nearest_range3_def dist_sq_def
      int_max_def Let_def)

definition large_index_tree :: NodeTree where
  "large_index_tree =
     \<lparr>m_minimum_spacing = 1, m_size = 1, m_kdtree = [(Node 0 0 0, 0x80000000)]\<rparr>"

text \<open>
  Claim C4 (the code departs from it). The index type is \<^verbatim>\<open>size_t\<close>, but the running
  minimum of \<^verbatim>\<open>find\<close> starts at the largest \<^verbatim>\<open>int\<close>. On an empty index with minimum
  spacing 1, \<^verbatim>\<open>find_or_insert\<close> stores the point \<open>(0, 0, 0)\<close> with index \<open>2^31\<close>
  and returns that index. A query at the same point has this one point in range, so the
  smallest index in range is \<open>2^31\<close>; \<^verbatim>\<open>find\<close> fails its own assertion, and with
  assertions compiled out it returns \<open>2^31 - 1\<close>, an index that was never inserted.
\<close>

theorem NodeTree_find_large_index:
  "NodeTree_find_or_insert True (NodeTree_new 1) (Node 0 0 0) 0x80000000 =
     Inr (large_index_tree, 0x80000000)
   \<and> NodeTree_find_or_insert False (NodeTree_new 1) (Node 0 0 0) 0x80000000 =
     Inr (large_index_tree, 0x80000000)
   \<and> smallest_in_range large_index_tree (Node 0 0 0) = 0x80000000
   \<and> NodeTree_find True large_index_tree (Node 0 0 0) = Inl (Exception ''Assertion failure'' [])
   \<and> NodeTree_find False large_index_tree (Node 0 0 0) = Inr 0x7FFFFFFF"
  by (simp add: NodeTree_find_or_insert_def NodeTree_find_def NodeTree_new_def
      large_index_tree_def kd_nearest_range3_def kd_insert3_def dist_sq_def
      smallest_in_range_def InvalidNode_size_t_def InvalidNode_def int_max_def Let_def
      ucast_sentinel)

section \<open>Idempotence of the topology builders\<close>

text \<open>Two triangles on three shared nodes.\<close>

definition cube_corner_mesh :: Mesh where
  "cube_corner_mesh =
     empty_mesh\<lparr>nodes := [Node 1 0 0, Node 0 1 0, Node 0 0 1],
                faces := [Face [Edge 0 1 0, Edge 1 2 0, Edge 2 0 0],
                          Face [Edge 1 0 0, Edge 0 2 0, Edge 2 1 0]]\<rparr>"

text \<open>
  Claim C8. \<^verbatim>\<open>ConstructEdgeMap\<close> called twice in succession gives the edge map of one
  call, and \<^verbatim>\<open>ConstructReverseNodeArray\<close> called again on the mesh it returned
  returns that mesh unchanged.
\<close>

theorem topology_idempotent:
  "ConstructEdgeMap (ConstructEdgeMap m) = ConstructEdgeMap m
   \<and> (ConstructReverseNodeArray m = Inr m' \<longrightarrow> ConstructReverseNodeArray m' = Inr m')"
  by (auto simp: ConstructEdgeMap_def ConstructReverseNodeArray_def split: sum.splits)

theorem topology_idempotent_witness:
  "ConstructReverseNodeArray cube_corner_mesh =
     Inr (cube_corner_mesh\<lparr>revnodearray := [{0, 1}, {0, 1}, {0, 1}]\<rparr>)
   \<and> ConstructReverseNodeArray (cube_corner_mesh\<lparr>revnodearray := [{0, 1}, {0, 1}, {0, 1}]\<rparr>) =
       Inr (cube_corner_mesh\<lparr>revnodearray := [{0, 1}, {0, 1}, {0, 1}]\<rparr>)
   \<and> edgemap (ConstructEdgeMap (ConstructEdgeMap cube_corner_mesh)) (0, 1) = Some [0]
   \<and> edgemap (ConstructEdgeMap (ConstructEdgeMap cube_corner_mesh)) (1, 0) = Some [1]"
proof -
  have first: "ConstructReverseNodeArray cube_corner_mesh =
      Inr (cube_corner_mesh\<lparr>revnodearray := [{0, 1}, {0, 1}, {0, 1}]\<rparr>)"
    by (simp add: ConstructReverseNodeArray_def cube_corner_mesh_def empty_mesh_def
        numeral_3_eq_3 insert_commute)
  have em: "edgemap (ConstructEdgeMap cube_corner_mesh) (0, 1) = Some [0]
      \<and> edgemap (ConstructEdgeMap cube_corner_mesh) (1, 0) = Some [1]"
    by (simp add: ConstructEdgeMap_def cube_corner_mesh_def empty_mesh_def
        ConstructEdgeMap_edge_def AddFace_def face_at_def upt_rec)
  show ?thesis
    using first em
      topology_idempotent[of cube_corner_mesh
        "cube_corner_mesh\<lparr>revnodearray := [{0, 1}, {0, 1}, {0, 1}]\<rparr>"]
    by simp
qed

section \<open>Format detection and the removal of coincident nodes after reading\<close>

text \<open>
  The claim's condition for SCRIP, in its words: the three dimensions are all there.
\<close>

definition scrip_triad :: "NcFile \<Rightarrow> bool" where
  "scrip_triad ncFile =
     (''grid_size'' \<in> set (map fst (nc_dims ncFile))
      \<and> ''grid_corners'' \<in> set (map fst (nc_dims ncFile))
      \<and> ''grid_rank'' \<in> set (map fst (nc_dims ncFile)))"

text \<open>
  Dimension names are unique in a NetCDF file; then the counter of the detection loop
  reaches 3 exactly when the three dimensions are there.
\<close>

definition present :: "string \<Rightarrow> (string \<times> nat) list \<Rightarrow> nat" where
  "present name dims = (if name \<in> set (map fst dims) then 1 else 0)"

lemma count_SCRIP_dims_present:
  "distinct (map fst dims) \<Longrightarrow>
   count_SCRIP_dims dims c =
     c + present ''grid_size'' dims + present ''grid_corners'' dims + present ''grid_rank'' dims"
proof (induction dims arbitrary: c)
  case Nil
  then show ?case by (simp add: present_def)
next
  case (Cons d rest)
  have notin: "fst d \<notin> set (map fst rest)" and dist: "distinct (map fst rest)"
    using Cons.prems by simp_all
  have ih: "count_SCRIP_dims rest c' =
      c' + present ''grid_size'' rest + present ''grid_corners'' rest + present ''grid_rank'' rest"
    for c'
    using Cons.IH[OF dist] .
  have notin': "(fst d, b) \<notin> set rest" for b
  proof
    assume "(fst d, b) \<in> set rest"
    then have "fst (fst d, b) \<in> fst ` set rest" by (rule imageI)
    then show False using notin by simp
  qed
  show ?case
    using notin' by (auto simp: ih present_def Let_def)
qed

lemma count_SCRIP_dims_triad:
  "distinct (map fst (nc_dims ncFile)) \<Longrightarrow>
   (count_SCRIP_dims (nc_dims ncFile) 0 = 3) = scrip_triad ncFile"
  by (simp add: count_SCRIP_dims_present present_def scrip_triad_def)

lemma ICON_cells_length:
  "ICON_cells strFile var nNodes l i fs = Inr fs' \<Longrightarrow> length fs' = length fs"
  by (induction fs arbitrary: i fs') (auto split: sum.splits)

lemma Read_ICON_nodes:
  "Read_ICON m strFile ncFile = Inr m' \<Longrightarrow>
   \<exists>n. get_dim ncFile ''vertex'' = Some n \<and> length (nodes m') = n"
  by (auto simp: Read_ICON_def Let_def split: option.splits sum.splits if_splits)

text \<open>
  Claim C6, amended. For a file that opens, \<^verbatim>\<open>Mesh::Read\<close> takes the ICON branch when
  the global attribute \<^verbatim>\<open>title\<close> is the sentinel, otherwise the SCRIP branch when the
  three dimensions are there, otherwise the Exodus branch. The ICON branch returns every
  vertex of the file (no removal of coincident nodes); after the SCRIP branch the
  removal runs exactly when \<^verbatim>\<open>fRemoveCoincidentNodes\<close> is set; after the Exodus branch
  it always runs.
\<close>

theorem Read_format_precedence:
  assumes "strFile \<noteq> []" and "nc_valid ncFile" and "distinct (map fst (nc_dims ncFile))"
  shows "(title_is_ICON ncFile \<longrightarrow>
            Read m strFile ncFile flag = Read_ICON (m\<lparr>strFileName := strFile\<rparr>) strFile ncFile
            \<and> (\<forall>m'. Read m strFile ncFile flag = Inr m' \<longrightarrow>
                  get_dim ncFile ''vertex'' = Some (length (nodes m'))))
       \<and> (\<not> title_is_ICON ncFile \<and> scrip_triad ncFile \<longrightarrow>
            Read m strFile ncFile flag =
              (case Read_SCRIP (m\<lparr>strFileName := strFile\<rparr>) strFile ncFile of
                 Inl e \<Rightarrow> Inl e
               | Inr m' \<Rightarrow> if flag then RemoveCoincidentNodes m' else Inr m'))
       \<and> (\<not> title_is_ICON ncFile \<and> \<not> scrip_triad ncFile \<longrightarrow>
            Read m strFile ncFile flag =
              (case Read_Exodus (m\<lparr>strFileName := strFile\<rparr>) strFile ncFile of
                 Inl e \<Rightarrow> Inl e
               | Inr m' \<Rightarrow> RemoveCoincidentNodes m'))"
proof -
  have triad: "(count_SCRIP_dims (nc_dims ncFile) 0 = 3) = scrip_triad ncFile"
    using assms(3) by (rule count_SCRIP_dims_triad)
  have icon: "Read m strFile ncFile flag = Read_ICON (m\<lparr>strFileName := strFile\<rparr>) strFile ncFile"
    if "title_is_ICON ncFile"
    using that assms(1,2) by (simp add: Read_def)
  have icon_nodes: "get_dim ncFile ''vertex'' = Some (length (nodes m'))"
    if "title_is_ICON ncFile" "Read m strFile ncFile flag = Inr m'" for m'
    using Read_ICON_nodes[of "m\<lparr>strFileName := strFile\<rparr>" strFile ncFile m'] icon that by auto
  have scrip: "Read m strFile ncFile flag =
      (case Read_SCRIP (m\<lparr>strFileName := strFile\<rparr>) strFile ncFile of
         Inl e \<Rightarrow> Inl e
       | Inr m' \<Rightarrow> if flag then RemoveCoincidentNodes m' else Inr m')"
    if "\<not> title_is_ICON ncFile" "scrip_triad ncFile"
    using that assms(1,2) triad by (simp add: Read_def)
  have exodus: "Read m strFile ncFile flag =
      (case Read_Exodus (m\<lparr>strFileName := strFile\<rparr>) strFile ncFile of
         Inl e \<Rightarrow> Inl e
       | Inr m' \<Rightarrow> RemoveCoincidentNodes m')"
    if "\<not> title_is_ICON ncFile" "\<not> scrip_triad ncFile"
    using that assms(1,2) triad by (simp add: Read_def)
  show ?thesis using icon icon_nodes scrip exodus by blast
qed


text \<open>
  A SCRIP file with one cell of three corners, all at longitude and latitude zero.
\<close>

lemma separatedD:
  "separated ns \<Longrightarrow> i < length ns \<Longrightarrow> j < length ns \<Longrightarrow> i \<noteq> j \<Longrightarrow>
   ReferenceTolerance \<le> Magnitude (node_minus (ns ! i) (ns ! j))"
  by (simp add: separated_def)

definition zero_var :: NcVar where
  "zero_var =
     \<lparr>var_dims = [(''grid_size'', 1), (''grid_corners'', 3)], var_atts = [],
      var_ints = (\<lambda>i j. 0), var_doubles = (\<lambda>i j. 0)\<rparr>"

definition scrip_sample :: NcFile where
  "scrip_sample =
     \<lparr>nc_valid = True, nc_atts = [],
      nc_dims = [(''grid_size'', 1), (''grid_corners'', 3), (''grid_rank'', 1)],
      nc_vars = [(''grid_corner_lat'', zero_var), (''grid_corner_lon'', zero_var)]\<rparr>"

definition scrip_raw_mesh :: Mesh where
  "scrip_raw_mesh =
     empty_mesh\<lparr>nodes := [Node 1 0 0, Node 1 0 0, Node 1 0 0],
                faces := [Face [Edge 0 1 0, Edge 1 2 0, Edge 2 0 0]],
                strFileName := ''grid.nc''\<rparr>"

definition scrip_merged_mesh :: Mesh where
  "scrip_merged_mesh =
     empty_mesh\<lparr>nodes := [Node 1 0 0],
                faces := [Face [Edge 0 0 0, Edge 0 0 0, Edge 0 0 0]],
                strFileName := ''grid.nc''\<rparr>"

lemma upt_3: "[0..<3] = [0, 1, 2]"
  by code_simp


lemma SCRIP_node_origin: "SCRIP_node False False 0 0 = Node 1 0 0"
  by (simp add: SCRIP_node_def)

lemma SCRIP_faces_sample:
  "SCRIP_faces 3 [0] = Inr [Face [Edge 0 1 0, Edge 1 2 0, Edge 2 0 0]]"
  by code_simp

lemma scrip_sample_lookups:
  "get_var scrip_sample ''grid_corner_lat'' = Some zero_var"
  "get_var scrip_sample ''grid_corner_lon'' = Some zero_var"
  "get_var scrip_sample ''grid_imask'' = None"
  "get_dim scrip_sample ''grid_size'' = Some 1"
  "get_dim scrip_sample ''grid_corners'' = Some 3"
  "units_degrees zero_var = False"
  "var_doubles zero_var i j = 0"
  by (simp_all add: get_var_def get_dim_def scrip_sample_def units_degrees_def zero_var_def)

lemma Read_SCRIP_sample:
  "Read_SCRIP (empty_mesh\<lparr>strFileName := ''grid.nc''\<rparr>) ''grid.nc'' scrip_sample =
     Inr scrip_raw_mesh"
  by (simp add: Read_SCRIP_def scrip_sample_lookups SCRIP_faces_sample upt_3
      SCRIP_node_origin scrip_raw_mesh_def empty_mesh_def del: SCRIP_faces.simps)

lemma zero_near: "Magnitude (Node 0 0 0) < ReferenceTolerance"
  by (simp add: Magnitude_def ReferenceTolerance_def)

lemma RemoveCoincidentNodes_scrip_raw:
  "RemoveCoincidentNodes scrip_raw_mesh = Inr scrip_merged_mesh"
  by (simp add: RemoveCoincidentNodes_def scrip_raw_mesh_def scrip_merged_mesh_def
      empty_mesh_def kd_insert3_def dist_sq_def node_minus_def zero_near new_index_def)

lemma scrip_sample_format: "\<not> title_is_ICON scrip_sample \<and> scrip_triad scrip_sample"
  by (simp add: title_is_ICON_def scrip_triad_def scrip_sample_def get_att_def)

theorem Read_format_precedence_witness:
  "''grid.nc'' \<noteq> [] \<and> nc_valid scrip_sample \<and> distinct (map fst (nc_dims scrip_sample))
   \<and> \<not> title_is_ICON scrip_sample \<and> scrip_triad scrip_sample
   \<and> Read empty_mesh ''grid.nc'' scrip_sample True = Inr scrip_merged_mesh"
proof -
  have name: "''grid.nc'' \<noteq> []" by simp
  have valid: "nc_valid scrip_sample" by (simp add: scrip_sample_def)
  have dist: "distinct (map fst (nc_dims scrip_sample))" by (simp add: scrip_sample_def)
  show ?thesis
    using Read_format_precedence[OF name valid dist, of empty_mesh True]
      name valid dist scrip_sample_format Read_SCRIP_sample RemoveCoincidentNodes_scrip_raw
    by simp
qed

text \<open>
  Claim C6 as stated fails for a SCRIP file read with \<^verbatim>\<open>fRemoveCoincidentNodes\<close> unset:
  the file is not an ICON file, and the mesh read keeps its three coincident nodes,
  which the removal would have merged.
\<close>

theorem Read_SCRIP_keeps_coincident_nodes:
  "\<not> title_is_ICON scrip_sample
   \<and> Read empty_mesh ''grid.nc'' scrip_sample False = Inr scrip_raw_mesh
   \<and> \<not> separated (nodes scrip_raw_mesh)
   \<and> RemoveCoincidentNodes scrip_raw_mesh \<noteq> Inr scrip_raw_mesh"
proof -
  have read: "Read empty_mesh ''grid.nc'' scrip_sample False = Inr scrip_raw_mesh"
    by (simp add: Read_def scrip_sample_format Read_SCRIP_sample)
       (simp add: scrip_sample_def)
  have "\<not> separated (nodes scrip_raw_mesh)"
  proof
    assume "separated (nodes scrip_raw_mesh)"
    then have "ReferenceTolerance \<le>
        Magnitude (node_minus (nodes scrip_raw_mesh ! 0) (nodes scrip_raw_mesh ! 1))"
      by (rule separatedD) (simp_all add: scrip_raw_mesh_def empty_mesh_def)
    then show False
      using zero_near by (simp add: scrip_raw_mesh_def empty_mesh_def node_minus_def)
  qed
  moreover have "RemoveCoincidentNodes scrip_raw_mesh \<noteq> Inr scrip_raw_mesh"
    by (simp only: RemoveCoincidentNodes_scrip_raw)
       (simp add: scrip_raw_mesh_def scrip_merged_mesh_def empty_mesh_def)
  ultimately show ?thesis using read scrip_sample_format by simp
qed

section \<open>Exodus files with ids out of range\<close>

text \<open>
  Exodus files of version 5 with three nodes on the coordinate axes and one block of
  one triangle, with the connectivity and the global ids as parameters.
\<close>

definition version_5 :: NcAtt where
  "version_5 = \<lparr>att_is_float = True, att_as_string = [], att_as_float = 5\<rparr>"

definition exodus_var :: "(nat \<Rightarrow> nat \<Rightarrow> int) \<Rightarrow> NcVar" where
  "exodus_var values =
     \<lparr>var_dims = [], var_atts = [], var_ints = values,
      var_doubles = (\<lambda>c i. if c = i then 1 else 0)\<rparr>"

definition exodus_file :: "(nat \<Rightarrow> nat \<Rightarrow> int) \<Rightarrow> (nat \<Rightarrow> nat \<Rightarrow> int) \<Rightarrow> NcFile" where
  "exodus_file connect global_id =
     \<lparr>nc_valid = True, nc_atts = [(''version'', version_5)],
      nc_dims = [(''num_nodes'', 3), (''num_elem'', 1), (''num_el_blk'', 1),
                 (''num_nod_per_el1'', 3), (''num_el_in_blk1'', 1)],
      nc_vars = [(''connect1'', exodus_var connect), (''global_id1'', exodus_var global_id),
                 (''coord'', exodus_var (\<lambda>i j. 0))]\<rparr>"

lemma string_of_nat_1: "string_of_nat (Suc 0) = ''1''"
  by (simp add: string_of_nat.simps digit_char_def)

lemma exodus_file_format:
  "\<not> title_is_ICON (exodus_file c g)" "count_SCRIP_dims (nc_dims (exodus_file c g)) 0 \<noteq> 3"
  "nc_valid (exodus_file c g)"
  by (simp_all add: title_is_ICON_def exodus_file_def get_att_def)

lemma exodus_file_lookups:
  "get_att (exodus_file c g) ''version'' = Some version_5"
  "get_dim (exodus_file c g) ''num_nodes'' = Some 3"
  "get_dim (exodus_file c g) ''num_elem'' = Some 1"
  "get_dim (exodus_file c g) ''num_el_blk'' = Some 1"
  "get_dim (exodus_file c g) ''num_nod_per_el1'' = Some 3"
  "get_dim (exodus_file c g) ''num_el_in_blk1'' = Some 1"
  "get_var (exodus_file c g) ''connect1'' = Some (exodus_var c)"
  "get_var (exodus_file c g) ''global_id1'' = Some (exodus_var g)"
  "get_var (exodus_file c g) ''edge_type1'' = None"
  "get_var (exodus_file c g) ''el_parent_a1'' = None"
  "get_var (exodus_file c g) ''el_parent_b1'' = None"
  "get_var (exodus_file c g) ''coord'' = Some (exodus_var (\<lambda>i j. 0))"
  by (simp_all add: exodus_file_def get_att_def get_dim_def get_var_def)

lemma version_5_facts: "att_is_float version_5" "\<not> is_legacy (att_as_float version_5)"
  by (simp_all add: version_5_def is_legacy_def)

lemma Read_Exodus_block_sample:
  \<open>Read_Exodus_block strFile (exodus_file c g) (att_as_float version_5) (Suc 0) m 0 =
    (if vecSourceFaceIx m \<noteq> [] then
       Inl (Exception ''Exodus Grid file "%s" is missing variable "%s"'' [S strFile, S ''el_parent_a1''])
     else if vecTargetFaceIx m \<noteq> [] then
       Inl (Exception ''Exodus Grid file "%s" is missing variable "%s"'' [S strFile, S ''el_parent_b1''])
     else
       Exodus_elements (Suc 0)
         \<lparr>nNodesPerElement = 3, nElementCount = Suc 0, iConnect = c, iGlobalId = (\<lambda>i. g i 0),
          iEdgeType = (\<lambda>i k. 0), iParentA = (\<lambda>i. 0), iParentB = (\<lambda>i. 0)\<rparr> [0]
         (m\<lparr>vecSourceFaceIx := [], vecTargetFaceIx := []\<rparr>))\<close>
  by (simp add: Read_Exodus_block_def Exodus_global_id_def Exodus_parent_def szParentA_def
      szParentB_def version_5_facts string_of_nat_1 exodus_file_lookups exodus_var_def Let_def
      del: Exodus_elements.simps)


definition unit_nodes :: "Node list" where
  "unit_nodes = [Node 1 0 0, Node 0 1 0, Node 0 0 1]"

lemma exodus_coord:
  "map (\<lambda>i. Node (var_doubles (exodus_var v) 0 i) (var_doubles (exodus_var v) (Suc 0) i)
                   (var_doubles (exodus_var v) 2 i)) [0..<3] = unit_nodes"
  by (simp add: exodus_var_def unit_nodes_def upt_rec)

lemma Read_Exodus_sample:
  "Read_Exodus m strFile (exodus_file c g) =
    (case Read_Exodus_block strFile (exodus_file c g) (att_as_float version_5) 1
            (m\<lparr>faces := resize 1 (Face []) (faces m)\<rparr>) 0 of
       Inl e \<Rightarrow> Inl e
     | Inr m1 \<Rightarrow> Inr (m1\<lparr>nodes := unit_nodes\<rparr>))"
  by (simp add: Read_Exodus_def exodus_file_lookups version_5_facts exodus_coord Let_def
      del: Read_Exodus_blocks.simps(2) split: sum.splits)
     (simp split: sum.splits)


lemma unit_nodes_far:
  "\<not> Magnitude (Node (- 1) 1 0) < ReferenceTolerance"
  "\<not> Magnitude (Node (- 1) 0 1) < ReferenceTolerance"
  "\<not> Magnitude (Node 0 (- 1) 1) < ReferenceTolerance"
  by (simp_all add: Magnitude_less_tolerance) (simp_all add: ReferenceTolerance_def)

lemma RemoveCoincidentNodes_unit_nodes:
  "nodes m = unit_nodes \<Longrightarrow> RemoveCoincidentNodes m = Inr m"
  by (simp add: RemoveCoincidentNodes_def unit_nodes_def kd_insert3_def dist_sq_def
      node_minus_def unit_nodes_far)

definition connect_in_range :: "nat \<Rightarrow> nat \<Rightarrow> int" where
  "connect_in_range i k = int k + 1"

definition connect_node_7 :: "nat \<Rightarrow> nat \<Rightarrow> int" where
  "connect_node_7 i k = (if k = 2 then 7 else int k + 1)"

lemma Exodus_face_sample:
  "Exodus_face (connect_node_7 0) (\<lambda>k. 0) [0..<3] (Face_new 3) =
     Inr (Face [Edge 0 1 0, Edge 1 6 0, Edge 6 0 0])"
  by code_simp

definition mesh_node_7 :: Mesh where
  "mesh_node_7 =
     empty_mesh\<lparr>nodes := unit_nodes, faces := [Face [Edge 0 1 0, Edge 1 6 0, Edge 6 0 0]],
                strFileName := ''mesh.g''\<rparr>"

text \<open>
  Claim C7 (the code departs from it). The claim has every global id outside
  \<open>[1, num_elem]\<close> and every node id of the connectivity outside \<open>[1, num_nodes]\<close> end
  the read with an error that names the file and the field. A global id of 0 passes
  the only test (\<^verbatim>\<open>iGlobalId[i] - 1 >= nTotalElementCount\<close>) and the face is written
  at index \<open>-1\<close>, outside the vector. A node id of 7 in a file of three nodes is not
  tested at all: the read succeeds with a face on node 6. A global id of 5 in a file of
  one element does raise, with a message that has the id and the bound but not the file.
\<close>

theorem Read_Exodus_out_of_range_ids:
  \<open>Read empty_mesh ''mesh.g'' (exodus_file connect_in_range (\<lambda>i j. 0)) True =
     Inl (Undefined ''faces'')
   \<and> Read empty_mesh ''mesh.g'' (exodus_file connect_node_7 (\<lambda>i j. 1)) True = Inr mesh_node_7
   \<and> Read empty_mesh ''mesh.g'' (exodus_file connect_in_range (\<lambda>i j. 5)) True =
       Inl (Exception ''global_id %i out of range [1,%i]'' [I 5, I 1])\<close>
proof -
  have low: "Read empty_mesh ''mesh.g'' (exodus_file connect_in_range (\<lambda>i j. 0)) True =
      Inl (Undefined ''faces'')"
    by (simp add: Read_def exodus_file_format Read_Exodus_sample Read_Exodus_block_sample
        empty_mesh_def resize_def)
  have node: "Read empty_mesh ''mesh.g'' (exodus_file connect_node_7 (\<lambda>i j. 1)) True =
      Inr mesh_node_7"
    by (simp add: Read_def exodus_file_format Read_Exodus_sample Read_Exodus_block_sample
        empty_mesh_def resize_def Exodus_face_sample set_parent_def
        RemoveCoincidentNodes_unit_nodes mesh_node_7_def del: Exodus_face.simps)
  have high: \<open>Read empty_mesh ''mesh.g'' (exodus_file connect_in_range (\<lambda>i j. 5)) True =
       Inl (Exception ''global_id %i out of range [1,%i]'' [I 5, I 1])\<close>
    by (simp add: Read_def exodus_file_format Read_Exodus_sample Read_Exodus_block_sample
        empty_mesh_def resize_def)
  show ?thesis using low node high by simp
qed

section \<open>Parent variables of the blocks of an Exodus file\<close>

lemma set_parent_length:
  "set_parent name vec ix parent = Inr vec' \<Longrightarrow> length vec' = length vec"
  by (auto simp: set_parent_def split: if_splits)

lemma Exodus_elements_parent_lengths:
  "Exodus_elements nTotal blk is m = Inr m' \<Longrightarrow>
   length (vecSourceFaceIx m') = length (vecSourceFaceIx m)
   \<and> length (vecTargetFaceIx m') = length (vecTargetFaceIx m)"
proof (induction "is" arbitrary: m)
  case Nil
  then show ?case by simp
next
  case (Cons i rest)
  from Cons.prems obtain face vecSource vecTarget where
    s: "set_parent ''vecSourceFaceIx'' (vecSourceFaceIx m) (iGlobalId blk i - 1) (iParentA blk i)
        = Inr vecSource"
    and t: "set_parent ''vecTargetFaceIx'' (vecTargetFaceIx m) (iGlobalId blk i - 1) (iParentB blk i)
        = Inr vecTarget"
    and r: "Exodus_elements nTotal blk rest
        (m\<lparr>faces := (faces m)[nat (iGlobalId blk i - 1) := face],
           vecSourceFaceIx := vecSource, vecTargetFaceIx := vecTarget\<rparr>) = Inr m'"
    by (auto split: if_splits sum.splits)
  show ?case
    using Cons.IH[OF r] set_parent_length[OF s] set_parent_length[OF t] by simp
qed

definition parent_length :: "bool \<Rightarrow> nat \<Rightarrow> int list \<Rightarrow> nat" where
  "parent_length var_present nTotal vec =
     (if var_present \<and> vec = [] then nTotal else length vec)"

lemma Read_Exodus_block_parent_lengths:
  assumes "Read_Exodus_block strFile ncFile flVersion nTotal m n = Inr m'"
  shows "length (vecSourceFaceIx m') =
           parent_length (get_var ncFile (szParentA flVersion n) \<noteq> None) nTotal (vecSourceFaceIx m)
       \<and> length (vecTargetFaceIx m') =
           parent_length (get_var ncFile (szParentB flVersion n) \<noteq> None) nTotal (vecTargetFaceIx m)
       \<and> (get_var ncFile (szParentA flVersion n) = None \<longrightarrow> vecSourceFaceIx m = [])
       \<and> (get_var ncFile (szParentB flVersion n) = None \<longrightarrow> vecTargetFaceIx m = [])"
  using assms
  by (auto simp: Read_Exodus_block_def Let_def Exodus_parent_def parent_length_def resize_def
      dest!: Exodus_elements_parent_lengths
      split: option.splits sum.splits prod.splits if_splits)



lemma parent_names_differ: "szParentA flVersion n \<noteq> szParentB flVersion n"
  by (simp add: szParentA_def szParentB_def)

definition other_name :: "real \<Rightarrow> nat \<Rightarrow> string \<Rightarrow> bool" where
  "other_name flVersion n name =
     (name \<noteq> szParentA flVersion n \<and> name \<noteq> szParentB flVersion n)"

lemma other_names:
  "other_name flVersion n (''num_nod_per_el'' @ s)"
  "other_name flVersion n (''num_el_in_blk'' @ s)"
  "other_name flVersion n (''connect'' @ s)"
  "other_name flVersion n (''global_id'' @ s)"
  by (simp_all add: other_name_def szParentA_def szParentB_def)

lemma Exodus_global_id_error:
  "Exodus_global_id strFile ncFile flVersion n = Inl e \<Longrightarrow>
   \<exists>fmt name. e = Exception fmt [S strFile, S name] \<and> other_name flVersion n name"
  using other_names(4)[of flVersion n "string_of_nat (n + 1)"]
  by (auto simp: Exodus_global_id_def Let_def split: if_splits option.splits)

lemma Exodus_parent_error:
  \<open>Exodus_parent strFile ncFile name nTotal vec = Inl e \<Longrightarrow>
   e = Exception ''Exodus Grid file "%s" is missing variable "%s"'' [S strFile, S name]
   \<and> get_var ncFile name = None \<and> vec \<noteq> []\<close>
  by (auto simp: Exodus_parent_def split: option.splits if_splits)

lemma Exodus_parent_missing:
  \<open>get_var ncFile name = None \<Longrightarrow> vec \<noteq> [] \<Longrightarrow>
   Exodus_parent strFile ncFile name nTotal vec =
     Inl (Exception ''Exodus Grid file "%s" is missing variable "%s"'' [S strFile, S name])\<close>
  by (simp add: Exodus_parent_def)

text \<open>The ways a pass of the loop over the blocks can end.\<close>

lemma Read_Exodus_block_result:
  assumes "Read_Exodus_block strFile ncFile flVersion nTotal m n = r"
  shows "(\<exists>fmt name. r = Inl (Exception fmt [S strFile, S name]) \<and> other_name flVersion n name)
       \<or> (\<exists>e. Exodus_parent strFile ncFile (szParentA flVersion n) nTotal (vecSourceFaceIx m)
                  = Inl e \<and> r = Inl e)
       \<or> (\<exists>e. Exodus_parent strFile ncFile (szParentB flVersion n) nTotal (vecTargetFaceIx m)
                  = Inl e \<and> r = Inl e)
       \<or> (\<exists>blk idx vs pa vt pb.
             Exodus_parent strFile ncFile (szParentA flVersion n) nTotal (vecSourceFaceIx m)
               = Inr (vs, pa)
             \<and> Exodus_parent strFile ncFile (szParentB flVersion n) nTotal (vecTargetFaceIx m)
               = Inr (vt, pb)
             \<and> r = Exodus_elements nTotal blk idx
                     (m\<lparr>vecSourceFaceIx := vs, vecTargetFaceIx := vt\<rparr>))"
proof (cases "get_dim ncFile (''num_nod_per_el'' @ string_of_nat (n + 1))")
  case None
  then show ?thesis
    using assms other_names(1)[of flVersion n "string_of_nat (n + 1)"]
    by (simp add: Read_Exodus_block_def Let_def) blast
next
  case d1: (Some nodesPerElement)
  show ?thesis
  proof (cases "get_dim ncFile (''num_el_in_blk'' @ string_of_nat (n + 1))")
    case None
    then show ?thesis
      using assms d1 other_names(2)[of flVersion n "string_of_nat (n + 1)"]
      by (simp add: Read_Exodus_block_def Let_def) blast
  next
    case d2: (Some elementCount)
    show ?thesis
    proof (cases "get_var ncFile (''connect'' @ string_of_nat (n + 1))")
      case None
      then show ?thesis
        using assms d1 d2 other_names(3)[of flVersion n "string_of_nat (n + 1)"]
        by (simp add: Read_Exodus_block_def Let_def) blast
    next
      case v: (Some varConnect)
      show ?thesis
      proof (cases "Exodus_global_id strFile ncFile flVersion n")
        case (Inl e)
        then show ?thesis
          using assms d1 d2 v Exodus_global_id_error[OF Inl]
          by (simp add: Read_Exodus_block_def Let_def) blast
      next
        case g: (Inr global_id)
        show ?thesis
        proof (cases "Exodus_parent strFile ncFile (szParentA flVersion n) nTotal
                        (vecSourceFaceIx m)")
          case (Inl e)
          then show ?thesis
            using assms d1 d2 v g by (simp add: Read_Exodus_block_def Let_def)
        next
          case a: (Inr pa)
          show ?thesis
          proof (cases "Exodus_parent strFile ncFile (szParentB flVersion n) nTotal
                          (vecTargetFaceIx m)")
            case (Inl e)
            then show ?thesis
              using assms d1 d2 v g a
              by (simp add: Read_Exodus_block_def Let_def split: prod.splits)
          next
            case b: (Inr pb)
            obtain vs fa where pa: "pa = (vs, fa)" by (cases pa) auto
            obtain vt fb where pb: "pb = (vt, fb)" by (cases pb) auto
            have "\<exists>blk idx. r = Exodus_elements nTotal blk idx
                (m\<lparr>vecSourceFaceIx := vs, vecTargetFaceIx := vt\<rparr>)"
              using assms d1 d2 v g a b pa pb
              by (simp add: Read_Exodus_block_def Let_def) blast
            then show ?thesis using a b pa pb by blast
          qed
        qed
      qed
    qed
  qed
qed


lemma Read_Exodus_block_missing_parent_A:
  assumes "get_var ncFile (szParentA flVersion n) = None" and "vecSourceFaceIx m \<noteq> []"
  shows "\<exists>fmt args. Read_Exodus_block strFile ncFile flVersion nTotal m n
           = Inl (Exception fmt args)"
  using Read_Exodus_block_result[OF refl, of strFile ncFile flVersion nTotal m n]
    Exodus_parent_missing[OF assms, of strFile nTotal]
  by (auto dest!: Exodus_parent_error)

lemma Read_Exodus_block_missing_parent_B:
  assumes "get_var ncFile (szParentB flVersion n) = None" and "vecTargetFaceIx m \<noteq> []"
  shows "\<exists>fmt args. Read_Exodus_block strFile ncFile flVersion nTotal m n
           = Inl (Exception fmt args)"
  using Read_Exodus_block_result[OF refl, of strFile ncFile flVersion nTotal m n]
    Exodus_parent_missing[OF assms, of strFile nTotal]
  by (auto dest!: Exodus_parent_error)

lemma Exodus_face_error: "Exodus_face connect types ks face = Inl e \<Longrightarrow> \<exists>s. e = Undefined s"
  by (induction ks arbitrary: face) (auto simp: SetNode_def Let_def split: sum.splits if_splits)

lemma set_parent_error: "set_parent name vec ix parent = Inl e \<Longrightarrow> e = Undefined name"
  by (auto simp: set_parent_def split: if_splits)

lemma Exodus_elements_error:
  \<open>Exodus_elements nTotal blk idx m = Inl e \<Longrightarrow>
   (\<exists>args. e = Exception ''global_id %i out of range [1,%i]'' args) \<or> (\<exists>s. e = Undefined s)\<close>
proof (induction idx arbitrary: m)
  case Nil
  then show ?case by simp
next
  case (Cons i rest)
  show ?case
    using Cons.prems Cons.IH
    by (auto dest: Exodus_face_error set_parent_error split: if_splits sum.splits)
qed

lemma Read_Exodus_block_optional_A:
  assumes "get_var ncFile (szParentA flVersion n) = None" and "vecSourceFaceIx m = []"
  shows \<open>Read_Exodus_block strFile ncFile flVersion nTotal m n \<noteq>
     Inl (Exception ''Exodus Grid file "%s" is missing variable "%s"''
            [S strFile, S (szParentA flVersion n)])\<close>
  using Read_Exodus_block_result[OF refl, of strFile ncFile flVersion nTotal m n] assms(2)
    parent_names_differ[of flVersion n]
  by (auto simp: other_name_def dest!: Exodus_parent_error dest: Exodus_elements_error)

lemma Read_Exodus_block_optional_B:
  assumes "get_var ncFile (szParentB flVersion n) = None" and "vecTargetFaceIx m = []"
  shows \<open>Read_Exodus_block strFile ncFile flVersion nTotal m n \<noteq>
     Inl (Exception ''Exodus Grid file "%s" is missing variable "%s"''
            [S strFile, S (szParentB flVersion n)])\<close>
  using Read_Exodus_block_result[OF refl, of strFile ncFile flVersion nTotal m n] assms(2)
    parent_names_differ[of flVersion n]
  by (auto simp: other_name_def dest!: Exodus_parent_error dest: Exodus_elements_error)


lemma Read_Exodus_block_keeps_parents:
  assumes "Read_Exodus_block strFile ncFile flVersion nTotal m n = Inr m'"
  shows "(vecSourceFaceIx m \<noteq> [] \<longrightarrow> vecSourceFaceIx m' \<noteq> [])
       \<and> (vecTargetFaceIx m \<noteq> [] \<longrightarrow> vecTargetFaceIx m' \<noteq> [])
       \<and> (get_var ncFile (szParentA flVersion n) \<noteq> None \<and> 0 < nTotal
            \<longrightarrow> vecSourceFaceIx m' \<noteq> [])
       \<and> (get_var ncFile (szParentB flVersion n) \<noteq> None \<and> 0 < nTotal
            \<longrightarrow> vecTargetFaceIx m' \<noteq> [])"
  using Read_Exodus_block_parent_lengths[OF assms]
  by (auto simp: parent_length_def split: if_splits)

lemma Read_Exodus_blocks_later_missing_A:
  "k \<in> set ns \<Longrightarrow> get_var ncFile (szParentA flVersion k) = None \<Longrightarrow>
   vecSourceFaceIx m \<noteq> [] \<Longrightarrow>
   Read_Exodus_blocks strFile ncFile flVersion nTotal ns m \<noteq> Inr m'"
proof (induction ns arbitrary: m)
  case Nil
  then show ?case by simp
next
  case (Cons n rest)
  show ?case
  proof (cases "Read_Exodus_block strFile ncFile flVersion nTotal m n")
    case (Inl e)
    then show ?thesis by simp
  next
    case (Inr m1)
    have ne: "vecSourceFaceIx m1 \<noteq> []"
      using Read_Exodus_block_keeps_parents[OF Inr] Cons.prems(3) by simp
    have "n \<noteq> k"
      using Read_Exodus_block_missing_parent_A[of ncFile flVersion k m strFile nTotal]
        Cons.prems(2,3) Inr by auto
    then have "k \<in> set rest" using Cons.prems(1) by simp
    then show ?thesis using Cons.IH[OF _ Cons.prems(2) ne] Inr by simp
  qed
qed

lemma Read_Exodus_blocks_later_missing_B:
  "k \<in> set ns \<Longrightarrow> get_var ncFile (szParentB flVersion k) = None \<Longrightarrow>
   vecTargetFaceIx m \<noteq> [] \<Longrightarrow>
   Read_Exodus_blocks strFile ncFile flVersion nTotal ns m \<noteq> Inr m'"
proof (induction ns arbitrary: m)
  case Nil
  then show ?case by simp
next
  case (Cons n rest)
  show ?case
  proof (cases "Read_Exodus_block strFile ncFile flVersion nTotal m n")
    case (Inl e)
    then show ?thesis by simp
  next
    case (Inr m1)
    have ne: "vecTargetFaceIx m1 \<noteq> []"
      using Read_Exodus_block_keeps_parents[OF Inr] Cons.prems(3) by simp
    have "n \<noteq> k"
      using Read_Exodus_block_missing_parent_B[of ncFile flVersion k m strFile nTotal]
        Cons.prems(2,3) Inr by auto
    then have "k \<in> set rest" using Cons.prems(1) by simp
    then show ?thesis using Cons.IH[OF _ Cons.prems(2) ne] Inr by simp
  qed
qed

lemma Read_Exodus_blocks_inconsistent_A:
  "k \<in> set post \<Longrightarrow> get_var ncFile (szParentA flVersion j) \<noteq> None \<Longrightarrow>
   get_var ncFile (szParentA flVersion k) = None \<Longrightarrow> 0 < nTotal \<Longrightarrow>
   Read_Exodus_blocks strFile ncFile flVersion nTotal (pre @ j # post) m \<noteq> Inr m'"
proof (induction pre arbitrary: m)
  case Nil
  show ?case
  proof (cases "Read_Exodus_block strFile ncFile flVersion nTotal m j")
    case (Inl e)
    then show ?thesis by simp
  next
    case (Inr m1)
    have "vecSourceFaceIx m1 \<noteq> []"
      using Read_Exodus_block_keeps_parents[OF Inr] Nil.prems(2,4) by simp
    then show ?thesis
      using Read_Exodus_blocks_later_missing_A[OF Nil.prems(1,3)] Inr by simp
  qed
next
  case (Cons n pre)
  show ?case
    using Cons.IH[OF Cons.prems]
    by (cases "Read_Exodus_block strFile ncFile flVersion nTotal m n") simp_all
qed

lemma Read_Exodus_blocks_inconsistent_B:
  "k \<in> set post \<Longrightarrow> get_var ncFile (szParentB flVersion j) \<noteq> None \<Longrightarrow>
   get_var ncFile (szParentB flVersion k) = None \<Longrightarrow> 0 < nTotal \<Longrightarrow>
   Read_Exodus_blocks strFile ncFile flVersion nTotal (pre @ j # post) m \<noteq> Inr m'"
proof (induction pre arbitrary: m)
  case Nil
  show ?case
  proof (cases "Read_Exodus_block strFile ncFile flVersion nTotal m j")
    case (Inl e)
    then show ?thesis by simp
  next
    case (Inr m1)
    have "vecTargetFaceIx m1 \<noteq> []"
      using Read_Exodus_block_keeps_parents[OF Inr] Nil.prems(2,4) by simp
    then show ?thesis
      using Read_Exodus_blocks_later_missing_B[OF Nil.prems(1,3)] Inr by simp
  qed
next
  case (Cons n pre)
  show ?case
    using Cons.IH[OF Cons.prems]
    by (cases "Read_Exodus_block strFile ncFile flVersion nTotal m n") simp_all
qed

lemma upt_split: "j < k \<Longrightarrow> k < n \<Longrightarrow> [0..<n] = [0..<j] @ j # [Suc j..<n] \<and> k \<in> set [Suc j..<n]"
proof -
  assume jk: "j < k" and kn: "k < n"
  have "[0..<n] = [0..<j] @ [j..<n]"
    using upt_add_eq_append[of 0 j "n - j"] jk kn by simp
  moreover have "[j..<n] = j # [Suc j..<n]"
    using jk kn by (simp add: upt_conv_Cons)
  ultimately show ?thesis using jk kn by simp
qed

text \<open>
  Claim C10. In the pass of the loop for one block, a parent variable that is missing
  raises no error about it while the parent array of the mesh is empty, and makes the
  pass end in an exception when the array is not empty. A block that has the variable
  leaves the array populated, so when a block has the variable and a later block does
  not, the loop over the blocks cannot succeed. The same holds for the second parent
  variable and the target array.
\<close>

theorem Exodus_parent_variables_consistent:
  \<open>(get_var ncFile (szParentA flVersion n) = None \<and> vecSourceFaceIx m = [] \<longrightarrow>
      Read_Exodus_block strFile ncFile flVersion nTotal m n \<noteq>
        Inl (Exception ''Exodus Grid file "%s" is missing variable "%s"''
               [S strFile, S (szParentA flVersion n)]))
   \<and> (get_var ncFile (szParentA flVersion n) = None \<and> vecSourceFaceIx m \<noteq> [] \<longrightarrow>
      (\<exists>fmt args. Read_Exodus_block strFile ncFile flVersion nTotal m n
         = Inl (Exception fmt args)))
   \<and> (j < k \<and> k < nBlocks \<and> 0 < nTotal
        \<and> get_var ncFile (szParentA flVersion j) \<noteq> None
        \<and> get_var ncFile (szParentA flVersion k) = None \<longrightarrow>
      (\<forall>m'. Read_Exodus_blocks strFile ncFile flVersion nTotal [0..<nBlocks] m \<noteq> Inr m'))
   \<and> (get_var ncFile (szParentB flVersion n) = None \<and> vecTargetFaceIx m = [] \<longrightarrow>
      Read_Exodus_block strFile ncFile flVersion nTotal m n \<noteq>
        Inl (Exception ''Exodus Grid file "%s" is missing variable "%s"''
               [S strFile, S (szParentB flVersion n)]))
   \<and> (get_var ncFile (szParentB flVersion n) = None \<and> vecTargetFaceIx m \<noteq> [] \<longrightarrow>
      (\<exists>fmt args. Read_Exodus_block strFile ncFile flVersion nTotal m n
         = Inl (Exception fmt args)))
   \<and> (j < k \<and> k < nBlocks \<and> 0 < nTotal
        \<and> get_var ncFile (szParentB flVersion j) \<noteq> None
        \<and> get_var ncFile (szParentB flVersion k) = None \<longrightarrow>
      (\<forall>m'. Read_Exodus_blocks strFile ncFile flVersion nTotal [0..<nBlocks] m \<noteq> Inr m'))\<close>
proof -
  have loopA: "Read_Exodus_blocks strFile ncFile flVersion nTotal [0..<nBlocks] m \<noteq> Inr m'"
    if "j < k" "k < nBlocks" "0 < nTotal" "get_var ncFile (szParentA flVersion j) \<noteq> None"
      "get_var ncFile (szParentA flVersion k) = None" for m'
    using upt_split[OF that(1,2)]
      Read_Exodus_blocks_inconsistent_A[OF _ that(4,5,3), of "[Suc j..<nBlocks]" strFile "[0..<j]" m m']
    by simp
  have loopB: "Read_Exodus_blocks strFile ncFile flVersion nTotal [0..<nBlocks] m \<noteq> Inr m'"
    if "j < k" "k < nBlocks" "0 < nTotal" "get_var ncFile (szParentB flVersion j) \<noteq> None"
      "get_var ncFile (szParentB flVersion k) = None" for m'
    using upt_split[OF that(1,2)]
      Read_Exodus_blocks_inconsistent_B[OF _ that(4,5,3), of "[Suc j..<nBlocks]" strFile "[0..<j]" m m']
    by simp
  show ?thesis
    using Read_Exodus_block_optional_A[of ncFile flVersion n m strFile nTotal]
      Read_Exodus_block_missing_parent_A[of ncFile flVersion n m strFile nTotal]
      Read_Exodus_block_optional_B[of ncFile flVersion n m strFile nTotal]
      Read_Exodus_block_missing_parent_B[of ncFile flVersion n m strFile nTotal]
      loopA loopB
    by blast
qed

text \<open>
  An Exodus file of two blocks where the first block has the variable \<^verbatim>\<open>el_parent_a1\<close>
  and the second block has no \<^verbatim>\<open>el_parent_a2\<close>; neither has a second parent variable.
\<close>

definition two_block_file :: NcFile where
  "two_block_file =
     \<lparr>nc_valid = True, nc_atts = [(''version'', version_5)],
      nc_dims = [(''num_nodes'', 3), (''num_elem'', 2), (''num_el_blk'', 2),
                 (''num_nod_per_el1'', 3), (''num_el_in_blk1'', 1),
                 (''num_nod_per_el2'', 3), (''num_el_in_blk2'', 1)],
      nc_vars = [(''connect1'', exodus_var connect_in_range),
                 (''global_id1'', exodus_var (\<lambda>i j. 1)),
                 (''el_parent_a1'', exodus_var (\<lambda>i j. 1)),
                 (''connect2'', exodus_var connect_in_range),
                 (''global_id2'', exodus_var (\<lambda>i j. 2)),
                 (''coord'', exodus_var (\<lambda>i j. 0))]\<rparr>"

definition two_block_start :: Mesh where
  "two_block_start = empty_mesh\<lparr>faces := [Face [], Face []]\<rparr>"

definition two_block_mid :: Mesh where
  "two_block_mid =
     empty_mesh\<lparr>faces := [Face [Edge 0 1 0, Edge 1 2 0, Edge 2 0 0], Face []],
                vecSourceFaceIx := [0, 0]\<rparr>"

lemma block_names:
  "string_of_nat (Suc 0) = ''1''" "string_of_nat (Suc (Suc 0)) = ''2''"
  "string_of_nat 2 = ''2''" "\<not> is_legacy 5"
  by (simp_all add: string_of_nat.simps digit_char_def is_legacy_def)

lemma two_block_lookups:
  "get_dim two_block_file ''num_nod_per_el1'' = Some 3"
  "get_dim two_block_file ''num_el_in_blk1'' = Some 1"
  "get_dim two_block_file ''num_nod_per_el2'' = Some 3"
  "get_dim two_block_file ''num_el_in_blk2'' = Some 1"
  "get_var two_block_file ''connect1'' = Some (exodus_var connect_in_range)"
  "get_var two_block_file ''global_id1'' = Some (exodus_var (\<lambda>i j. 1))"
  "get_var two_block_file ''el_parent_a1'' = Some (exodus_var (\<lambda>i j. 1))"
  "get_var two_block_file ''el_parent_b1'' = None"
  "get_var two_block_file ''edge_type1'' = None"
  "get_var two_block_file ''connect2'' = Some (exodus_var connect_in_range)"
  "get_var two_block_file ''global_id2'' = Some (exodus_var (\<lambda>i j. 2))"
  "get_var two_block_file ''el_parent_a2'' = None"
  "get_var two_block_file ''el_parent_b2'' = None"
  "get_var two_block_file ''edge_type2'' = None"
  by (simp_all add: two_block_file_def get_dim_def get_var_def)

lemma Exodus_face_in_range:
  "Exodus_face (connect_in_range 0) (\<lambda>k. 0) [0..<3] (Face_new 3) =
     Inr (Face [Edge 0 1 0, Edge 1 2 0, Edge 2 0 0])"
  by code_simp

lemma replicate_2: "replicate 2 x = [x, x]"
  by (simp add: numeral_2_eq_2)

lemma two_block_first:
  "Read_Exodus_block ''mesh.g'' two_block_file 5 2 two_block_start 0 = Inr two_block_mid"
  by (simp add: Read_Exodus_block_def Let_def block_names two_block_lookups
      Exodus_global_id_def Exodus_parent_def szParentA_def szParentB_def resize_def
      exodus_var_def Exodus_face_in_range set_parent_def two_block_start_def
      two_block_mid_def empty_mesh_def replicate_2 del: Exodus_face.simps)

lemma two_block_second:
  \<open>Read_Exodus_block ''mesh.g'' two_block_file 5 2 two_block_mid (Suc 0) =
     Inl (Exception ''Exodus Grid file "%s" is missing variable "%s"''
            [S ''mesh.g'', S ''el_parent_a2''])\<close>
  by (simp add: Read_Exodus_block_def Let_def block_names two_block_lookups
      Exodus_global_id_def Exodus_parent_def szParentA_def szParentB_def
      two_block_mid_def empty_mesh_def)

theorem Exodus_parent_variables_consistent_witness:
  \<open>get_var two_block_file (szParentB 5 0) = None \<and> vecTargetFaceIx two_block_start = []
   \<and> Read_Exodus_block ''mesh.g'' two_block_file 5 2 two_block_start 0 = Inr two_block_mid
   \<and> get_var two_block_file (szParentA 5 0) \<noteq> None
   \<and> get_var two_block_file (szParentA 5 1) = None
   \<and> vecSourceFaceIx two_block_mid \<noteq> []
   \<and> Read_Exodus_block ''mesh.g'' two_block_file 5 2 two_block_mid 1 =
       Inl (Exception ''Exodus Grid file "%s" is missing variable "%s"''
              [S ''mesh.g'', S ''el_parent_a2''])
   \<and> (\<forall>m'. Read_Exodus_blocks ''mesh.g'' two_block_file 5 2 [0..<2] two_block_start \<noteq> Inr m')\<close>
proof -
  have nm: "szParentA 5 0 = ''el_parent_a1''" "szParentA 5 (Suc 0) = ''el_parent_a2''"
    "szParentB 5 0 = ''el_parent_b1''"
    by (simp_all add: szParentA_def szParentB_def block_names)
  have pr: "get_var two_block_file (szParentA 5 0) \<noteq> None"
    and ab: "get_var two_block_file (szParentA 5 1) = None"
    and abB: "get_var two_block_file (szParentB 5 0) = None"
    by (simp_all add: nm two_block_lookups)
  have arr: "vecTargetFaceIx two_block_start = []" "vecSourceFaceIx two_block_mid \<noteq> []"
    by (simp_all add: two_block_start_def two_block_mid_def empty_mesh_def)
  have lp: "\<forall>m'. Read_Exodus_blocks ''mesh.g'' two_block_file 5 2 [0..<2] two_block_start
      \<noteq> Inr m'"
    using Exodus_parent_variables_consistent[of two_block_file 5 0 two_block_start "''mesh.g''" 2
        0 1 2] pr ab
    by simp
  show ?thesis
    using pr ab abB arr lp two_block_first two_block_second by simp
qed

end
